theory Spec2Isabelle
  imports Main
begin

section \<open>The image-bundle command of mindthegap\<close>

text \<open>
  The command is the closure \<open>RunE\<close> built by \<open>NewCommand\<close>. It reads four flag
  variables (\<open>configFile\<close>, \<open>platforms\<close>, \<open>outputFile\<close>, \<open>overwrite\<close>), talks to
  external collaborators (the file system, the configuration parser, the staging
  registry, the skopeo runner, the archiver, the loggers) and returns a Go \<open>error\<close>.

  The model is state passing over a history of events: every call to a collaborator and
  every log line appends one event, and each collaborator is a parameter that answers
  from the history so far and the arguments of the call.
\<close>

subsection \<open>Data\<close>

text \<open>
  A Go \<open>error\<close>: one returned by a collaborator (\<open>External\<close>, its message), one made by
  \<open>fmt.Errorf("<prefix>: %w", err)\<close> (\<open>Wrap\<close>), and the error of line 47.
\<close>

datatype error =
    External string
  | Wrap string error
  | AlreadyExists string

text \<open>The type \<open>platform\<close> of the package: a struct of three strings.\<close>

record platform =
  os :: string
  arch :: string
  variant :: string

text \<open>
  Modelled from the spec: the method \<open>String\<close> of \<open>platform\<close> is declared in a file of
  the package that is not part of the sources at hand. The canonical string form is
  \<open>os/arch\<close>, or \<open>os/arch/variant\<close> when the variant is non-empty.
\<close>

definition platform_String :: "platform \<Rightarrow> string" where
  "platform_String p =
     (if variant p \<noteq> '''' then os p @ ''/'' @ arch p @ ''/'' @ variant p
      else os p @ ''/'' @ arch p)"

text \<open>
  \<open>manifestlist.PlatformSpec\<close>, \<open>manifestlist.ManifestDescriptor\<close>,
  \<open>manifest.Versioned\<close> and \<open>manifestlist.ManifestList\<close> of the distribution library,
  with the fields the command reads or copies.
\<close>

record PlatformSpec =
  Architecture :: string
  OS :: string
  Variant :: string

record ManifestDescriptor =
  MediaType :: string
  Size :: int
  Digest :: string
  Platform :: PlatformSpec

record Versioned =
  SchemaVersion :: int
  VersionedMediaType :: string

record ManifestList =
  ListVersioned :: Versioned
  Manifests :: "ManifestDescriptor list"

text \<open>The zero value of a descriptor: what a Go map read yields for a missing key.\<close>

definition zero_ManifestDescriptor :: ManifestDescriptor where
  "zero_ManifestDescriptor =
     \<lparr>MediaType = '''', Size = 0, Digest = '''',
      Platform = \<lparr>Architecture = '''', OS = '''', Variant = ''''\<rparr>\<rparr>"

subsection \<open>The manifest index (lines 136 to 143)\<close>

type_synonym index = "string \<rightharpoonup> ManifestDescriptor"

text \<open>The key computed for one source manifest, lines 138 to 141.\<close>

definition srcManifestPlatform :: "ManifestDescriptor \<Rightarrow> string" where
  "srcManifestPlatform m =
     (let s = OS (Platform m) @ ''/'' @ Architecture (Platform m)
      in if Variant (Platform m) \<noteq> '''' then s @ ''/'' @ Variant (Platform m) else s)"

text \<open>The loop of line 137: one map store per source manifest, in order.\<close>

fun index_loop :: "index \<Rightarrow> ManifestDescriptor list \<Rightarrow> index" where
  "index_loop pm [] = pm"
| "index_loop pm (m # ms) = index_loop (pm(srcManifestPlatform m \<mapsto> m)) ms"

definition platformManifests :: "ManifestDescriptor list \<Rightarrow> index" where
  "platformManifests ms = index_loop Map.empty ms"

subsection \<open>Resolving one requested platform (lines 147 to 156)\<close>

text \<open>A Go map read with the comma-ok form: the zero value and \<open>false\<close> when absent.\<close>

definition map_read :: "index \<Rightarrow> string \<Rightarrow> ManifestDescriptor \<times> bool" where
  "map_read pm k =
     (case pm k of Some m \<Rightarrow> (m, True) | None \<Rightarrow> (zero_ManifestDescriptor, False))"

text \<open>
  Lines 147 to 153. The loop variable \<open>p\<close> is a copy of the slice element; the assignment
  of line 150 changes that copy, which the rest of the iteration goes on using. The
  result is the final \<open>p\<close>, \<open>platformManifest\<close> and \<open>ok\<close>.
\<close>

definition resolve :: "index \<Rightarrow> platform \<Rightarrow> platform \<times> ManifestDescriptor \<times> bool" where
  "resolve pm p =
     (case map_read pm (platform_String p) of
        (platformManifest, ok) \<Rightarrow>
          if \<not> ok then
            (let p' = (if arch p = ''arm64'' then p\<lparr>variant := ''v8''\<rparr> else p)
             in case map_read pm (platform_String p') of
                  (platformManifest', ok') \<Rightarrow> (p', platformManifest', ok'))
          else (p, platformManifest, ok))"

subsection \<open>The references of one copy (lines 158 to 165)\<close>

definition copy_refs ::
  "string \<Rightarrow> string \<Rightarrow> string \<Rightarrow> string \<Rightarrow> ManifestDescriptor \<Rightarrow> string \<times> string" where
  "copy_refs registryName imageName imageTag regAddress platformManifest =
     (let digestFound = (Digest platformManifest \<noteq> '''');
          src = ''docker://'' @ registryName @ ''/'' @ imageName @ '':'' @ imageTag;
          dst = ''docker://'' @ regAddress @ ''/'' @ imageName @ '':'' @ imageTag
      in if digestFound
         then (''docker://'' @ registryName @ ''/'' @ imageName @ ''@'' @ Digest platformManifest,
               ''docker://'' @ regAddress @ ''/'' @ imageName @ ''@'' @ Digest platformManifest)
         else (src, dst))"

subsection \<open>Collaborators and events\<close>

text \<open>The three outcomes the command tells apart after \<open>os.Stat\<close> (lines 44 to 53).\<close>

datatype stat_result =
    StatFound
  | StatNotExist
  | StatFailed error

text \<open>
  The argument of \<open>statusLogger.Start\<close>: a fixed message, the message of line 121,
  which prints the source image name and the slice \<open>platforms\<close>, or that of line 211.
\<close>

datatype status =
    Msg string
  | Copying string "platform list"
  | Archiving string

datatype SkopeoOption =
    DisableSrcTLSVerify
  | SrcCredentials string string
  | Debug
  | DisableDestTLSVerify
  | OptOS string
  | OptArch string
  | OptVariant string

text \<open>
  The configuration: \<open>cfg\<close> and \<open>Images\<close> are Go maps, ranged over in an order the
  language leaves open, so each is the list of its entries in the order of the run.
\<close>

record RegistryCredentials =
  Username :: string
  Password :: string

record RegistrySyncConfig =
  TLSVerify :: "bool option"
  Credentials :: "RegistryCredentials option"
  Images :: "(string \<times> string list) list"

type_synonym config = "(string \<times> RegistrySyncConfig) list"

text \<open>
  One event per call and per log line. A fallible call records the error it returned.
  \<open>Stderr\<close> and \<open>OsExit\<close> are the two actions of the goroutine of lines 86 to 91.
\<close>

datatype event =
    StatusStart status
  | StatusEnd bool
  | KlogInfo string
  | KlogInfoConfig config
  | KlogWarning platform string
  | EvStat string stat_result
  | EvParseFile string "error option"
  | EvAbs string "error option"
  | EvMkdirTemp string string "error option"
  | EvRemoveAll string
  | EvNewRegistry string "error option"
  | EvGoListenAndServe
  | EvNewRunner
  | EvSkopeoCleanup
  | EvLogin string bool "error option"
  | EvInspectManifest string "error option"
  | EvCopy string string "SkopeoOption list" "error option"
  | EvCopyManifest ManifestList string "SkopeoOption list" "error option"
  | EvWriteSanitizedConfig config string "error option"
  | EvArchiveDirectory string string "error option"
  | Stderr error
  | OsExit nat

text \<open>
  The collaborators. Each answers from the history of events so far and its arguments.
  \<open>registry_NewRegistry\<close> yields the registry, known to the command by its
  \<open>Address()\<close>; the skopeo calls yield their output next to their error;
  \<open>registry_ListenAndServe\<close> tells whether, at this point of the history, the blocking
  serve call of line 87 has returned, and with which error.
\<close>

record world =
  os_Stat :: "event list \<Rightarrow> string \<Rightarrow> stat_result"
  config_ParseFile :: "event list \<Rightarrow> string \<Rightarrow> error + config"
  filepath_Abs :: "event list \<Rightarrow> string \<Rightarrow> error + string"
  filepath_Dir :: "string \<Rightarrow> string"
  filepath_Join :: "string \<Rightarrow> string \<Rightarrow> string"
  os_MkdirTemp :: "event list \<Rightarrow> string \<Rightarrow> string \<Rightarrow> error + string"
  registry_NewRegistry :: "event list \<Rightarrow> string \<Rightarrow> error + string"
  registry_ListenAndServe :: "event list \<Rightarrow> error option"
  klog_V4_Enabled :: bool
  skopeo_AttemptToLoginToRegistry :: "event list \<Rightarrow> string \<Rightarrow> bool \<Rightarrow> error option"
  skopeo_InspectManifest :: "event list \<Rightarrow> string \<Rightarrow> ManifestList \<times> string \<times> error option"
  skopeo_Copy ::
    "event list \<Rightarrow> string \<Rightarrow> string \<Rightarrow> SkopeoOption list \<Rightarrow> string \<times> error option"
  skopeo_CopyManifest ::
    "event list \<Rightarrow> ManifestList \<Rightarrow> string \<Rightarrow> SkopeoOption list \<Rightarrow> string \<times> error option"
  config_WriteSanitizedConfig :: "event list \<Rightarrow> config \<Rightarrow> string \<Rightarrow> error option"
  archive_ArchiveDirectory :: "event list \<Rightarrow> string \<Rightarrow> string \<Rightarrow> error option"

text \<open>The flag variables captured by the closure (lines 27 to 32).\<close>

record flags =
  configFile :: string
  platforms :: "platform list"
  outputFile :: string
  overwrite :: bool

text \<open>\<open>klog.V(4).Info(s)\<close>: a log line only when verbosity 4 is enabled.\<close>

definition klog_V4_Info :: "world \<Rightarrow> string \<Rightarrow> event list" where
  "klog_V4_Info w s = (if klog_V4_Enabled w then [KlogInfo s] else [])"

subsection \<open>One requested platform of one tag (lines 146 to 185)\<close>

text \<open>
  What the loop over the platforms carries from one iteration to the next: the history,
  the variable \<open>digestFound\<close> declared at line 145, and the destination manifest list.
\<close>

record tag_state =
  hist :: "event list"
  digestFound :: bool
  destImageManifestList :: ManifestList

definition platform_body ::
  "world \<Rightarrow> string \<Rightarrow> SkopeoOption list \<Rightarrow> string \<Rightarrow> string \<Rightarrow> string \<Rightarrow> index \<Rightarrow>
   platform \<Rightarrow> tag_state \<Rightarrow> tag_state \<times> error option" where
  "platform_body w regAddress skopeoOpts registryName imageName imageTag pm p0 st =
     (case resolve pm p0 of
        (p, platformManifest, ok) \<Rightarrow>
          (let srcImageName = registryName @ ''/'' @ imageName @ '':'' @ imageTag;
               h1 = (if \<not> ok then hist st @ [KlogWarning p srcImageName] else hist st);
               found = (Digest platformManifest \<noteq> '''');
               refs = copy_refs registryName imageName imageTag regAddress platformManifest;
               opts = skopeoOpts @
                 [DisableDestTLSVerify, OptOS (os p), OptArch (arch p), OptVariant (variant p)]
           in case skopeo_Copy w h1 (fst refs) (snd refs) opts of
                (skopeoOutput, err) \<Rightarrow>
                  (let h2 = h1 @ [EvCopy (fst refs) (snd refs) opts err]
                   in case err of
                        Some e \<Rightarrow>
                          (st\<lparr>hist := h2 @ [KlogInfo skopeoOutput, StatusEnd False],
                              digestFound := found\<rparr>, Some e)
                      | None \<Rightarrow>
                          (st\<lparr>hist := h2 @ klog_V4_Info w skopeoOutput,
                              digestFound := found,
                              destImageManifestList :=
                                (if found
                                 then (destImageManifestList st)
                                   \<lparr>Manifests := Manifests (destImageManifestList st) @ [platformManifest]\<rparr>
                                 else destImageManifestList st)\<rparr>, None))))"

fun platforms_loop ::
  "world \<Rightarrow> string \<Rightarrow> SkopeoOption list \<Rightarrow> string \<Rightarrow> string \<Rightarrow> string \<Rightarrow> index \<Rightarrow>
   platform list \<Rightarrow> tag_state \<Rightarrow> tag_state \<times> error option" where
  "platforms_loop w regAddress skopeoOpts registryName imageName imageTag pm [] st = (st, None)"
| "platforms_loop w regAddress skopeoOpts registryName imageName imageTag pm (p # ps) st =
     (case platform_body w regAddress skopeoOpts registryName imageName imageTag pm p st of
        (st', Some e) \<Rightarrow> (st', Some e)
      | (st', None) \<Rightarrow>
          platforms_loop w regAddress skopeoOpts registryName imageName imageTag pm ps st')"

subsection \<open>One tag (lines 119 to 202)\<close>

text \<open>
  Lines 186 to 202, after the loop over the platforms: the destination manifest list is
  copied to the tag in the staging registry when \<open>digestFound\<close> holds.
\<close>

definition publish ::
  "world \<Rightarrow> string \<Rightarrow> SkopeoOption list \<Rightarrow> string \<Rightarrow> string \<Rightarrow> tag_state \<Rightarrow>
   event list \<times> error option" where
  "publish w regAddress skopeoOpts imageName imageTag st =
     (if digestFound st then
        (let dstRef = ''docker://'' @ regAddress @ ''/'' @ imageName @ '':'' @ imageTag;
             opts = skopeoOpts @ [DisableDestTLSVerify]
         in case skopeo_CopyManifest w (hist st) (destImageManifestList st) dstRef opts of
              (skopeoOutput, err) \<Rightarrow>
                (let h4 = hist st @ [EvCopyManifest (destImageManifestList st) dstRef opts err]
                 in case err of
                      Some e \<Rightarrow> (h4 @ [KlogInfo skopeoOutput, StatusEnd False], Some e)
                    | None \<Rightarrow> (h4 @ klog_V4_Info w skopeoOutput @ [StatusEnd True], None)))
      else (hist st @ [StatusEnd True], None))"

text \<open>
  Lines 119 to 202: the source manifest list is inspected, the index built, the platforms
  copied, the destination list published.
\<close>

definition tag_body ::
  "world \<Rightarrow> platform list \<Rightarrow> string \<Rightarrow> SkopeoOption list \<Rightarrow> string \<Rightarrow> string \<Rightarrow>
   event list \<Rightarrow> string \<Rightarrow> event list \<times> error option" where
  "tag_body w plats regAddress skopeoOpts registryName imageName h imageTag =
     (let srcImageName = registryName @ ''/'' @ imageName @ '':'' @ imageTag;
          h1 = h @ [StatusStart (Copying srcImageName plats)]
      in case skopeo_InspectManifest w h1 (''docker://'' @ srcImageName) of
           (srcImageManifestList, skopeoOutput, err) \<Rightarrow>
             (let h2 = h1 @ [EvInspectManifest (''docker://'' @ srcImageName) err]
              in case err of
                   Some e \<Rightarrow> (h2 @ [KlogInfo skopeoOutput, StatusEnd False], Some e)
                 | None \<Rightarrow>
                     (case platforms_loop w regAddress skopeoOpts registryName imageName imageTag
                             (platformManifests (Manifests srcImageManifestList)) plats
                             \<lparr>hist = h2 @ klog_V4_Info w skopeoOutput, digestFound = False,
                              destImageManifestList =
                                \<lparr>ListVersioned = ListVersioned srcImageManifestList,
                                 Manifests = []\<rparr>\<rparr> of
                        (st, Some e) \<Rightarrow> (hist st, Some e)
                      | (st, None) \<Rightarrow> publish w regAddress skopeoOpts imageName imageTag st)))"

fun tags_loop ::
  "world \<Rightarrow> platform list \<Rightarrow> string \<Rightarrow> SkopeoOption list \<Rightarrow> string \<Rightarrow> string \<Rightarrow>
   string list \<Rightarrow> event list \<Rightarrow> event list \<times> error option" where
  "tags_loop w plats regAddress skopeoOpts registryName imageName [] h = (h, None)"
| "tags_loop w plats regAddress skopeoOpts registryName imageName (imageTag # ts) h =
     (case tag_body w plats regAddress skopeoOpts registryName imageName h imageTag of
        (h', Some e) \<Rightarrow> (h', Some e)
      | (h', None) \<Rightarrow> tags_loop w plats regAddress skopeoOpts registryName imageName ts h')"

text \<open>The loop of line 117 over the images of one registry.\<close>

fun images_loop ::
  "world \<Rightarrow> platform list \<Rightarrow> string \<Rightarrow> SkopeoOption list \<Rightarrow> string \<Rightarrow>
   (string \<times> string list) list \<Rightarrow> event list \<Rightarrow> event list \<times> error option" where
  "images_loop w plats regAddress skopeoOpts registryName [] h = (h, None)"
| "images_loop w plats regAddress skopeoOpts registryName ((imageName, imageTags) # is) h =
     (case tags_loop w plats regAddress skopeoOpts registryName imageName imageTags h of
        (h', Some e) \<Rightarrow> (h', Some e)
      | (h', None) \<Rightarrow> images_loop w plats regAddress skopeoOpts registryName is h')"

subsection \<open>One registry (lines 98 to 204)\<close>

definition tls_opts :: "RegistrySyncConfig \<Rightarrow> SkopeoOption list" where
  "tls_opts registryConfig =
     (case TLSVerify registryConfig of
        Some v \<Rightarrow> if \<not> v then [DisableSrcTLSVerify] else []
      | None \<Rightarrow> [])"

definition has_credentials :: "RegistrySyncConfig \<Rightarrow> bool" where
  "has_credentials registryConfig =
     (case Credentials registryConfig of
        Some c \<Rightarrow> Username c \<noteq> ''''
      | None \<Rightarrow> False)"

definition credentials_opts :: "RegistrySyncConfig \<Rightarrow> SkopeoOption list" where
  "credentials_opts registryConfig =
     (case Credentials registryConfig of
        Some c \<Rightarrow> [SrcCredentials (Username c) (Password c)]
      | None \<Rightarrow> [])"

definition debug_opts :: "world \<Rightarrow> SkopeoOption list" where
  "debug_opts w = (if klog_V4_Enabled w then [Debug] else [])"

definition registry_body ::
  "world \<Rightarrow> platform list \<Rightarrow> string \<Rightarrow> event list \<Rightarrow> string \<Rightarrow> RegistrySyncConfig \<Rightarrow>
   event list \<times> error option" where
  "registry_body w plats regAddress h registryName registryConfig =
     (if has_credentials registryConfig then
        images_loop w plats regAddress
          (tls_opts registryConfig @ credentials_opts registryConfig @ debug_opts w)
          registryName (Images registryConfig) h
      else
        (case skopeo_AttemptToLoginToRegistry w h registryName (klog_V4_Enabled w) of
           Some e \<Rightarrow>
             (h @ [EvLogin registryName (klog_V4_Enabled w) (Some e)],
              Some (Wrap ''error logging in to registry'' e))
         | None \<Rightarrow>
             images_loop w plats regAddress (tls_opts registryConfig @ debug_opts w)
               registryName (Images registryConfig)
               (h @ [EvLogin registryName (klog_V4_Enabled w) None])))"

fun registries_loop ::
  "world \<Rightarrow> platform list \<Rightarrow> string \<Rightarrow> config \<Rightarrow> event list \<Rightarrow> event list \<times> error option" where
  "registries_loop w plats regAddress [] h = (h, None)"
| "registries_loop w plats regAddress ((registryName, registryConfig) # rs) h =
     (case registry_body w plats regAddress h registryName registryConfig of
        (h', Some e) \<Rightarrow> (h', Some e)
      | (h', None) \<Rightarrow> registries_loop w plats regAddress rs h')"

subsection \<open>The command (lines 36 to 219)\<close>

text \<open>Lines 97 to 218: the copies, the sanitized configuration and the archive.\<close>

definition copy_and_archive ::
  "world \<Rightarrow> flags \<Rightarrow> config \<Rightarrow> string \<Rightarrow> string \<Rightarrow> event list \<Rightarrow> event list \<times> error option" where
  "copy_and_archive w fl cfg tempDir regAddress h =
     (case registries_loop w (platforms fl) regAddress cfg h of
        (h1, Some e) \<Rightarrow> (h1, Some e)
      | (h1, None) \<Rightarrow>
          (let yaml = filepath_Join w tempDir ''images.yaml''
           in case config_WriteSanitizedConfig w h1 cfg yaml of
                Some e \<Rightarrow> (h1 @ [EvWriteSanitizedConfig cfg yaml (Some e)], Some e)
              | None \<Rightarrow>
                  (let h2 = h1 @ [EvWriteSanitizedConfig cfg yaml None,
                                  StatusStart (Archiving (outputFile fl))]
                   in case archive_ArchiveDirectory w h2 tempDir (outputFile fl) of
                        Some e \<Rightarrow>
                          (h2 @ [EvArchiveDirectory tempDir (outputFile fl) (Some e),
                                 StatusEnd False],
                           Some (Wrap ''failed to create image bundle tarball'' e))
                      | None \<Rightarrow>
                          (h2 @ [EvArchiveDirectory tempDir (outputFile fl) None,
                                 StatusEnd True], None))))"

text \<open>
  Lines 94 to 218. The cleanup of the runner is deferred at line 95, so it runs when
  the command returns, whatever it returns.
\<close>

definition with_runner ::
  "world \<Rightarrow> flags \<Rightarrow> config \<Rightarrow> string \<Rightarrow> string \<Rightarrow> event list \<Rightarrow> event list \<times> error option" where
  "with_runner w fl cfg tempDir regAddress h =
     (case copy_and_archive w fl cfg tempDir regAddress (h @ [EvNewRunner]) of
        (h', r) \<Rightarrow> (h' @ [EvSkopeoCleanup], r))"

text \<open>Lines 78 to 218: the staging registry is created and its serving goroutine started.\<close>

definition with_registry ::
  "world \<Rightarrow> flags \<Rightarrow> config \<Rightarrow> string \<Rightarrow> event list \<Rightarrow> event list \<times> error option" where
  "with_registry w fl cfg tempDir h =
     (let h1 = h @ [StatusEnd True, StatusStart (Msg ''Starting temporary Docker registry'')]
      in case registry_NewRegistry w h1 tempDir of
           Inl e \<Rightarrow>
             (h1 @ [EvNewRegistry tempDir (Some e), StatusEnd False],
              Some (Wrap ''failed to create local Docker registry'' e))
         | Inr regAddress \<Rightarrow>
             with_runner w fl cfg tempDir regAddress
               (h1 @ [EvNewRegistry tempDir None, EvGoListenAndServe, StatusEnd True]))"

text \<open>
  Lines 65 to 218. Once the temporary directory exists its removal is deferred (line 77):
  it is the last thing the command does before it returns.
\<close>

definition with_tempDir ::
  "world \<Rightarrow> flags \<Rightarrow> config \<Rightarrow> event list \<Rightarrow> event list \<times> error option" where
  "with_tempDir w fl cfg h =
     (let h1 = h @ [StatusStart (Msg ''Creating temporary directory'')]
      in case filepath_Abs w h1 (outputFile fl) of
           Inl e \<Rightarrow>
             (h1 @ [EvAbs (outputFile fl) (Some e), StatusEnd False],
              Some (Wrap ''failed to determine where to create temporary directory'' e))
         | Inr outputFileAbs \<Rightarrow>
             (let h2 = h1 @ [EvAbs (outputFile fl) None];
                  dir = filepath_Dir w outputFileAbs
              in case os_MkdirTemp w h2 dir ''.image-bundle-*'' of
                   Inl e \<Rightarrow>
                     (h2 @ [EvMkdirTemp dir ''.image-bundle-*'' (Some e), StatusEnd False],
                      Some (Wrap ''failed to create temporary directory'' e))
                 | Inr tempDir \<Rightarrow>
                     (case with_registry w fl cfg tempDir
                             (h2 @ [EvMkdirTemp dir ''.image-bundle-*'' None]) of
                        (h', r) \<Rightarrow> (h' @ [EvRemoveAll tempDir], r))))"

text \<open>Lines 56 to 218: the configuration is parsed.\<close>

definition with_config :: "world \<Rightarrow> flags \<Rightarrow> event list \<Rightarrow> event list \<times> error option" where
  "with_config w fl h =
     (let h1 = h @ [StatusStart (Msg ''Parsing image bundle config'')]
      in case config_ParseFile w h1 (configFile fl) of
           Inl e \<Rightarrow> (h1 @ [EvParseFile (configFile fl) (Some e), StatusEnd False], Some e)
         | Inr cfg \<Rightarrow>
             with_tempDir w fl cfg
               (h1 @ [EvParseFile (configFile fl) None] @
                (if klog_V4_Enabled w then [KlogInfoConfig cfg] else []) @ [StatusEnd True]))"

text \<open>The function \<open>RunE\<close>: the history of the run and the error returned.\<close>

definition RunE :: "world \<Rightarrow> flags \<Rightarrow> event list \<times> error option" where
  "RunE w fl =
     (if \<not> overwrite fl then
        (let h1 = [StatusStart (Msg ''Checking if output file already exists'')]
         in case os_Stat w h1 (outputFile fl) of
              StatFound \<Rightarrow>
                (h1 @ [EvStat (outputFile fl) StatFound, StatusEnd False],
                 Some (AlreadyExists (outputFile fl)))
            | StatFailed e \<Rightarrow>
                (h1 @ [EvStat (outputFile fl) (StatFailed e), StatusEnd False],
                 Some (Wrap (''failed to check if output file '' @ outputFile fl @
                             '' already exists'') e))
            | StatNotExist \<Rightarrow>
                with_config w fl (h1 @ [EvStat (outputFile fl) StatNotExist, StatusEnd True]))
      else with_config w fl [])"

subsection \<open>The process\<close>

text \<open>
  The goroutine of lines 86 to 91 runs beside the command. When the serve call returns an
  error it prints it and calls \<open>os.Exit(2)\<close>, which ends the process at once: the
  command does not return, and in Go deferred calls are not run by \<open>os.Exit\<close>.

  \<open>serve_watch\<close> walks along the events the command produces after the \<open>go\<close> statement
  and stops before the first of them that the serve error precedes.
\<close>

datatype outcome =
    Returned "error option"
  | Exited nat

fun serve_watch :: "world \<Rightarrow> event list \<Rightarrow> event list \<Rightarrow> (event list \<times> error) option" where
  "serve_watch w h [] = None"
| "serve_watch w h (e # es) =
     (case registry_ListenAndServe w h of
        Some err \<Rightarrow> Some (h, err)
      | None \<Rightarrow> serve_watch w (h @ [e]) es)"

fun is_go :: "event \<Rightarrow> bool" where
  "is_go EvGoListenAndServe = True"
| "is_go e = False"

definition command :: "world \<Rightarrow> flags \<Rightarrow> event list \<times> outcome" where
  "command w fl =
     (case RunE w fl of
        (T, r) \<Rightarrow>
          (case dropWhile (\<lambda>e. \<not> is_go e) T of
             [] \<Rightarrow> (T, Returned r)
           | g # rest \<Rightarrow>
               (case serve_watch w (takeWhile (\<lambda>e. \<not> is_go e) T @ [g]) rest of
                  Some (h, err) \<Rightarrow> (h @ [Stderr err, OsExit 2], Exited 2)
                | None \<Rightarrow> (T, Returned r))))"

subsection \<open>Reading a history\<close>

text \<open>The error, if any, that an event of the external copy tool records.\<close>

fun tool_error :: "event \<Rightarrow> error option" where
  "tool_error (EvInspectManifest r err) = err"
| "tool_error (EvCopy s d opts err) = err"
| "tool_error (EvCopyManifest l d opts err) = err"
| "tool_error e = None"

definition tool_ok :: "event \<Rightarrow> bool" where
  "tool_ok e = (tool_error e = None)"

text \<open>
  The events that only report or clean up: the log of the tool's output, the end of a
  status line, and the two deferred calls.
\<close>

fun aftermath :: "event \<Rightarrow> bool" where
  "aftermath (KlogInfo s) = True"
| "aftermath (StatusEnd b) = True"
| "aftermath EvSkopeoCleanup = True"
| "aftermath (EvRemoveAll d) = True"
| "aftermath e = False"

text \<open>
  A history and a result are fail-fast when the first failed tool event, if there is
  one, gives the result and is followed by aftermath only.
\<close>

definition fail_fast :: "event list \<Rightarrow> error option \<Rightarrow> bool" where
  "fail_fast T r =
     (case dropWhile tool_ok T of
        [] \<Rightarrow> True
      | c # post \<Rightarrow> r = tool_error c \<and> list_all aftermath post)"

fun is_stat :: "event \<Rightarrow> bool" where
  "is_stat (EvStat f r) = True"
| "is_stat e = False"

text \<open>
  The events of the loops, apart from the status line of line 120: everything but a call
  of \<open>os.Stat\<close> and a \<open>Copying\<close> status line.
\<close>

fun plain :: "event \<Rightarrow> bool" where
  "plain (EvStat f r) = False"
| "plain (StatusStart (Copying s pl)) = False"
| "plain e = True"

fun copying_of :: "platform list \<Rightarrow> event \<Rightarrow> bool" where
  "copying_of plats (StatusStart (Copying s pl)) = (pl = plats)"
| "copying_of plats e = True"

text \<open>
  The platform filter that the options of a copy carry: line 172 appends \<open>OS\<close>,
  \<open>Arch\<close> and \<open>Variant\<close> last.
\<close>

definition filter_platform :: "SkopeoOption list \<Rightarrow> platform option" where
  "filter_platform opts =
     (case rev opts of
        OptVariant v # OptArch a # OptOS s # rest \<Rightarrow> Some \<lparr>os = s, arch = a, variant = v\<rparr>
      | _ \<Rightarrow> None)"

text \<open>
  What a tag has to copy when its loop runs over the platforms \<open>plats\<close>: each of them, in
  order, as \<open>resolve\<close> leaves it against the index of the manifest list that the
  inspection of the tag (line 126, at history \<open>h\<close>) returns.
\<close>

definition tag_platforms :: "world \<Rightarrow> event list \<Rightarrow> string \<Rightarrow> platform list \<Rightarrow> platform list" where
  "tag_platforms w h srcImageName plats =
     (case skopeo_InspectManifest w h (''docker://'' @ srcImageName) of
        (srcImageManifestList, skopeoOutput, err) \<Rightarrow>
          map (\<lambda>p. fst (resolve (platformManifests (Manifests srcImageManifestList)) p)) plats)"

text \<open>
  Replaying a history against a list of platforms. \<open>pend\<close> holds the platforms the
  current tag has still to copy. The status line of a tag must print \<open>plats\<close> and come
  when the tag before is done; it makes the platforms of the tag pending. A warning must
  name the next pending platform, and a copy must carry it as its filter, after which it
  is no longer pending. \<open>None\<close> is a history that does not fit.
\<close>

fun replay_step ::
  "world \<Rightarrow> platform list \<Rightarrow> event list \<Rightarrow> platform list \<Rightarrow> event \<Rightarrow> platform list option" where
  "replay_step w plats h pend (StatusStart (Copying s pl)) =
     (if pl = plats \<and> pend = []
      then Some (tag_platforms w (h @ [StatusStart (Copying s pl)]) s plats)
      else None)"
| "replay_step w plats h pend (KlogWarning q n) =
     (case pend of
        [] \<Rightarrow> None
      | q' # rest \<Rightarrow> if q' = q then Some pend else None)"
| "replay_step w plats h pend (EvCopy s d opts err) =
     (case pend of
        [] \<Rightarrow> None
      | q # rest \<Rightarrow> if filter_platform opts = Some q then Some rest else None)"
| "replay_step w plats h pend e = Some pend"

fun replay ::
  "world \<Rightarrow> platform list \<Rightarrow> event list \<Rightarrow> platform list \<Rightarrow> event list \<Rightarrow> platform list option" where
  "replay w plats h pend [] = Some pend"
| "replay w plats h pend (e # es) =
     (case replay_step w plats h pend e of
        None \<Rightarrow> None
      | Some pend' \<Rightarrow> replay w plats (h @ [e]) pend' es)"

text \<open>
  A run iterates over \<open>plats\<close> when its history replays against them: to the end of every
  tag when it succeeds, and as far as it got when it fails.
\<close>

definition iterates_over :: "world \<Rightarrow> platform list \<Rightarrow> event list \<Rightarrow> error option \<Rightarrow> bool" where
  "iterates_over w plats T r =
     (case r of
        None \<Rightarrow> replay w plats [] [] T = Some []
      | Some e \<Rightarrow> replay w plats [] [] T \<noteq> None)"

text \<open>The events that the replay passes over.\<close>

fun neutral :: "event \<Rightarrow> bool" where
  "neutral (StatusStart (Copying s pl)) = False"
| "neutral (KlogWarning q n) = False"
| "neutral (EvCopy s d opts err) = False"
| "neutral e = True"

subsection \<open>Sample inputs\<close>

text \<open>
  The manifest list of \<open>docker.io/library/nginx:1.25\<close> in the scenarios of the
  specification: \<open>linux/amd64\<close> and \<open>linux/arm64/v8\<close>.
\<close>

definition nginx_amd64 :: ManifestDescriptor where
  "nginx_amd64 =
     \<lparr>MediaType = ''application/vnd.docker.distribution.manifest.v2+json'', Size = 1570,
      Digest = ''sha256:aaa'',
      Platform = \<lparr>Architecture = ''amd64'', OS = ''linux'', Variant = ''''\<rparr>\<rparr>"

definition nginx_arm64 :: ManifestDescriptor where
  "nginx_arm64 =
     \<lparr>MediaType = ''application/vnd.docker.distribution.manifest.v2+json'', Size = 1570,
      Digest = ''sha256:bbb'',
      Platform = \<lparr>Architecture = ''arm64'', OS = ''linux'', Variant = ''v8''\<rparr>\<rparr>"

text \<open>An entry whose digest is empty.\<close>

definition nginx_s390x :: ManifestDescriptor where
  "nginx_s390x =
     \<lparr>MediaType = ''application/vnd.docker.distribution.manifest.v2+json'', Size = 1570,
      Digest = '''',
      Platform = \<lparr>Architecture = ''s390x'', OS = ''linux'', Variant = ''''\<rparr>\<rparr>"

text \<open>A second entry for \<open>linux/amd64\<close>, with another digest.\<close>

definition nginx_amd64_later :: ManifestDescriptor where
  "nginx_amd64_later =
     \<lparr>MediaType = ''application/vnd.docker.distribution.manifest.v2+json'', Size = 1571,
      Digest = ''sha256:ddd'',
      Platform = \<lparr>Architecture = ''amd64'', OS = ''linux'', Variant = ''''\<rparr>\<rparr>"

definition nginx_list :: ManifestList where
  "nginx_list =
     \<lparr>ListVersioned = \<lparr>SchemaVersion = 2,
        VersionedMediaType = ''application/vnd.docker.distribution.manifest.list.v2+json''\<rparr>,
      Manifests = [nginx_amd64, nginx_arm64]\<rparr>"

definition nginx_config :: config where
  "nginx_config =
     [(''docker.io'',
       \<lparr>TLSVerify = None, Credentials = None,
        Images = [(''library/nginx'', [''1.25'', ''1.26''])]\<rparr>)]"

definition linux_amd64 :: platform where
  "linux_amd64 = \<lparr>os = ''linux'', arch = ''amd64'', variant = ''''\<rparr>"

definition linux_arm64 :: platform where
  "linux_arm64 = \<lparr>os = ''linux'', arch = ''arm64'', variant = ''''\<rparr>"

definition linux_arm64_v9 :: platform where
  "linux_arm64_v9 = \<lparr>os = ''linux'', arch = ''arm64'', variant = ''v9''\<rparr>"

definition linux_arm_v7 :: platform where
  "linux_arm_v7 = \<lparr>os = ''linux'', arch = ''arm'', variant = ''v7''\<rparr>"

definition linux_s390x :: platform where
  "linux_s390x = \<lparr>os = ''linux'', arch = ''s390x'', variant = ''''\<rparr>"

definition windows_amd64 :: platform where
  "windows_amd64 = \<lparr>os = ''windows'', arch = ''amd64'', variant = ''''\<rparr>"

text \<open>A world in which every collaborator succeeds and the registry keeps serving.\<close>

definition quiet_world :: world where
  "quiet_world =
     \<lparr>os_Stat = (\<lambda>h f. StatNotExist),
      config_ParseFile = (\<lambda>h f. Inr nginx_config),
      filepath_Abs = (\<lambda>h f. Inr (''/out/'' @ f)),
      filepath_Dir = (\<lambda>f. ''/out''),
      filepath_Join = (\<lambda>d f. d @ ''/'' @ f),
      os_MkdirTemp = (\<lambda>h d pat. Inr (d @ ''/.image-bundle-1'')),
      registry_NewRegistry = (\<lambda>h d. Inr ''127.0.0.1:5000''),
      registry_ListenAndServe = (\<lambda>h. None),
      klog_V4_Enabled = False,
      skopeo_AttemptToLoginToRegistry = (\<lambda>h r v. None),
      skopeo_InspectManifest = (\<lambda>h r. (nginx_list, '''', None)),
      skopeo_Copy = (\<lambda>h s d opts. ('''', None)),
      skopeo_CopyManifest = (\<lambda>h l d opts. ('''', None)),
      config_WriteSanitizedConfig = (\<lambda>h c f. None),
      archive_ArchiveDirectory = (\<lambda>h d f. None)\<rparr>"

definition bundle_flags :: "platform list \<Rightarrow> bool \<Rightarrow> flags" where
  "bundle_flags plats ow =
     \<lparr>configFile = ''images.yaml'', platforms = plats, outputFile = ''images.tar'',
      overwrite = ow\<rparr>"

text \<open>The state in which the loop over the platforms of a tag starts (lines 135 and 145).\<close>

definition start_state :: "event list \<Rightarrow> ManifestList \<Rightarrow> tag_state" where
  "start_state h srcImageManifestList =
     \<lparr>hist = h, digestFound = False,
      destImageManifestList =
        \<lparr>ListVersioned = ListVersioned srcImageManifestList, Manifests = []\<rparr>\<rparr>"

text \<open>A world in which every copy fails, and one in which the registry fails to serve.\<close>

definition copy_fails_world :: world where
  "copy_fails_world =
     quiet_world\<lparr>skopeo_Copy :=
       (\<lambda>h s d opts. (''manifest unknown'', Some (External ''exit status 1'')))\<rparr>"

definition serve_fails_world :: world where
  "serve_fails_world =
     quiet_world\<lparr>registry_ListenAndServe :=
       (\<lambda>h. Some (External ''listen tcp 127.0.0.1:5000: bind: address already in use''))\<rparr>"

text \<open>A world in which the output file is already there.\<close>

definition output_exists_world :: world where
  "output_exists_world = quiet_world\<lparr>os_Stat := (\<lambda>h f. StatFound)\<rparr>"

text \<open>
  A second tag whose manifest list has \<open>linux/arm64\<close> without a variant, and a world
  that serves it for \<open>nginx:1.26\<close>.
\<close>

definition nginx_arm64_plain :: ManifestDescriptor where
  "nginx_arm64_plain =
     \<lparr>MediaType = ''application/vnd.docker.distribution.manifest.v2+json'', Size = 1572,
      Digest = ''sha256:ccc'',
      Platform = \<lparr>Architecture = ''arm64'', OS = ''linux'', Variant = ''''\<rparr>\<rparr>"

definition nginx_list_126 :: ManifestList where
  "nginx_list_126 =
     \<lparr>ListVersioned = ListVersioned nginx_list, Manifests = [nginx_arm64_plain]\<rparr>"

definition two_tag_world :: world where
  "two_tag_world =
     quiet_world\<lparr>skopeo_InspectManifest :=
       (\<lambda>h r. if r = ''docker://docker.io/library/nginx:1.26''
              then (nginx_list_126, '''', None) else (nginx_list, '''', None))\<rparr>"

section \<open>Properties\<close>

text \<open>The definitions that a run on the sample inputs unfolds.\<close>

lemmas sample_defs =
  nginx_amd64_def nginx_arm64_def nginx_s390x_def nginx_list_def
  linux_amd64_def linux_arm64_def linux_arm64_v9_def linux_arm_v7_def linux_s390x_def
  windows_amd64_def

lemmas resolve_defs =
  resolve_def map_read_def platformManifests_def srcManifestPlatform_def platform_String_def
  zero_ManifestDescriptor_def

lemmas run_defs =
  RunE_def with_config_def with_tempDir_def with_registry_def with_runner_def
  copy_and_archive_def registry_body_def has_credentials_def tls_opts_def credentials_opts_def
  debug_opts_def tag_body_def publish_def platform_body_def copy_refs_def klog_V4_Info_def
  resolve_def map_read_def platformManifests_def srcManifestPlatform_def platform_String_def
  zero_ManifestDescriptor_def

lemmas world_defs =
  quiet_world_def copy_fails_world_def serve_fails_world_def bundle_flags_def nginx_config_def
  start_state_def

subsection \<open>The manifest index\<close>

lemma index_loop_lookup:
  "index_loop pm ms k =
     (case filter (\<lambda>m. srcManifestPlatform m = k) ms of
        [] \<Rightarrow> pm k
      | x # xs \<Rightarrow> Some (last (x # xs)))"
proof (induction ms arbitrary: pm)
  case Nil
  then show ?case by simp
next
  case (Cons m ms)
  then show ?case by (simp split: list.splits)
qed

text \<open>
  Claim C6. The index built from a sequence of source manifests maps a key to the last
  entry of the sequence whose platform gives that key, the key of an entry being
  \<open>os/arch\<close> when its variant is empty and \<open>os/arch/variant\<close> otherwise, and to nothing
  when no entry gives it. So every entry is stored under its canonical key, a later entry
  overwrites an earlier one with the same key, and the digest plays no part: an entry
  with an empty digest is kept.
\<close>

theorem index_maps_key_to_last_entry:
  "platformManifests ms k =
     (case filter
        (\<lambda>m. (if Variant (Platform m) = ''''
              then OS (Platform m) @ ''/'' @ Architecture (Platform m)
              else OS (Platform m) @ ''/'' @ Architecture (Platform m) @ ''/'' @
                   Variant (Platform m)) = k) ms of
        [] \<Rightarrow> None
      | x # xs \<Rightarrow> Some (last (x # xs)))"
proof -
  have "(\<lambda>m. srcManifestPlatform m = k) =
    (\<lambda>m. (if Variant (Platform m) = ''''
          then OS (Platform m) @ ''/'' @ Architecture (Platform m)
          else OS (Platform m) @ ''/'' @ Architecture (Platform m) @ ''/'' @
               Variant (Platform m)) = k)"
    by (auto simp add: srcManifestPlatform_def Let_def)
  then show ?thesis
    by (simp add: platformManifests_def index_loop_lookup)
qed

theorem index_maps_key_to_last_entry_witness:
  "platformManifests [nginx_amd64, nginx_arm64, nginx_s390x, nginx_amd64_later] ''linux/amd64'' =
     Some nginx_amd64_later \<and>
   platformManifests [nginx_amd64, nginx_arm64, nginx_s390x, nginx_amd64_later] ''linux/arm64/v8'' =
     Some nginx_arm64 \<and>
   platformManifests [nginx_amd64, nginx_arm64, nginx_s390x, nginx_amd64_later] ''linux/s390x'' =
     Some nginx_s390x \<and>
   Digest nginx_s390x = '''' \<and>
   platformManifests [nginx_amd64, nginx_arm64, nginx_s390x, nginx_amd64_later] ''linux/arm64'' =
     None"
  using
    index_maps_key_to_last_entry
      [of "[nginx_amd64, nginx_arm64, nginx_s390x, nginx_amd64_later]" "''linux/amd64''"]
    index_maps_key_to_last_entry
      [of "[nginx_amd64, nginx_arm64, nginx_s390x, nginx_amd64_later]" "''linux/arm64/v8''"]
    index_maps_key_to_last_entry
      [of "[nginx_amd64, nginx_arm64, nginx_s390x, nginx_amd64_later]" "''linux/s390x''"]
    index_maps_key_to_last_entry
      [of "[nginx_amd64, nginx_arm64, nginx_s390x, nginx_amd64_later]" "''linux/arm64''"]
  by (simp add: nginx_amd64_def nginx_arm64_def nginx_s390x_def nginx_amd64_later_def)

lemma index_keeps_empty_digest:
  "platformManifests [nginx_amd64, nginx_s390x] ''linux/s390x'' = Some nginx_s390x"
  by (simp add: platformManifests_def srcManifestPlatform_def nginx_amd64_def nginx_s390x_def)

subsection \<open>Resolution\<close>

text \<open>
  Claim C2, as amended. For a requested platform that is absent from the index: when its
  architecture is \<open>arm64\<close>, whatever its variant, the variant is set to \<open>v8\<close> and the
  outcome is that of the one lookup of the resulting key; for any other architecture the
  platform is left as requested and the outcome is unresolved (the zero descriptor and
  \<open>ok = false\<close>).
\<close>

theorem resolve_absent:
  assumes "pm (platform_String p) = None"
  shows "resolve pm p =
     (if arch p = ''arm64''
      then (p\<lparr>variant := ''v8''\<rparr>, map_read pm (platform_String (p\<lparr>variant := ''v8''\<rparr>)))
      else (p, zero_ManifestDescriptor, False))"
  using assms by (simp add: resolve_def map_read_def split: option.splits)

theorem resolve_absent_witness:
  "platformManifests (Manifests nginx_list) (platform_String linux_arm64) = None \<and>
   resolve (platformManifests (Manifests nginx_list)) linux_arm64 =
     (linux_arm64\<lparr>variant := ''v8''\<rparr>, nginx_arm64, True) \<and>
   platformManifests (Manifests nginx_list) (platform_String linux_arm_v7) = None \<and>
   resolve (platformManifests (Manifests nginx_list)) linux_arm_v7 =
     (linux_arm_v7, zero_ManifestDescriptor, False)"
proof -
  have a: "platformManifests (Manifests nginx_list) (platform_String linux_arm64) = None"
    by (simp add: resolve_defs sample_defs)
  have b: "platformManifests (Manifests nginx_list) (platform_String linux_arm_v7) = None"
    by (simp add: resolve_defs sample_defs)
  show ?thesis
    using a b
      resolve_absent [of "platformManifests (Manifests nginx_list)" linux_arm64]
      resolve_absent [of "platformManifests (Manifests nginx_list)" linux_arm_v7]
    by (simp add: resolve_defs sample_defs)
qed

text \<open>
  The claim as stated fails: \<open>linux/arm64/v9\<close> has a non-empty variant and is absent
  from the index, and yet it is resolved through the \<open>v8\<close> retry.
\<close>

theorem v8_retry_with_variant_counterexample:
  "arch linux_arm64_v9 = ''arm64'' \<and> variant linux_arm64_v9 \<noteq> '''' \<and>
   platformManifests (Manifests nginx_list) (platform_String linux_arm64_v9) = None \<and>
   resolve (platformManifests (Manifests nginx_list)) linux_arm64_v9 =
     (linux_arm64_v9\<lparr>variant := ''v8''\<rparr>, nginx_arm64, True)"
  by (simp add: resolve_defs sample_defs)

subsection \<open>The copy request\<close>

text \<open>
  Claim C3. For every outcome \<open>(q, platformManifest, ok)\<close> of the resolution, the
  references of the copy are digest-qualified, \<open>registryName/imageName@digest\<close> to
  \<open>stagingAddress/imageName@digest\<close>, exactly when the outcome is resolved (\<open>ok\<close>) with
  a non-empty digest; they are tag-qualified, \<open>registryName/imageName:tag\<close> to
  \<open>stagingAddress/imageName:tag\<close>, when it is unresolved and when it is resolved with an
  empty digest. Each reference is passed to the copy tool under the transport prefix
  \<open>docker://\<close>.
\<close>

theorem copy_refs_by_resolution:
  assumes "resolve pm p = (q, platformManifest, ok)"
  shows "copy_refs registryName imageName imageTag regAddress platformManifest =
     (if ok \<and> Digest platformManifest \<noteq> ''''
      then (''docker://'' @ registryName @ ''/'' @ imageName @ ''@'' @ Digest platformManifest,
            ''docker://'' @ regAddress @ ''/'' @ imageName @ ''@'' @ Digest platformManifest)
      else (''docker://'' @ registryName @ ''/'' @ imageName @ '':'' @ imageTag,
            ''docker://'' @ regAddress @ ''/'' @ imageName @ '':'' @ imageTag))"
  using assms
  by (auto simp add: resolve_def map_read_def copy_refs_def zero_ManifestDescriptor_def Let_def
      split: option.splits if_splits)

theorem copy_refs_by_resolution_witness:
  "resolve (platformManifests [nginx_amd64, nginx_s390x]) linux_amd64 =
     (linux_amd64, nginx_amd64, True) \<and>
   copy_refs ''docker.io'' ''library/nginx'' ''1.25'' ''127.0.0.1:5000'' nginx_amd64 =
     (''docker://docker.io/library/nginx@sha256:aaa'',
      ''docker://127.0.0.1:5000/library/nginx@sha256:aaa'') \<and>
   resolve (platformManifests [nginx_amd64, nginx_s390x]) linux_s390x =
     (linux_s390x, nginx_s390x, True) \<and>
   copy_refs ''docker.io'' ''library/nginx'' ''1.25'' ''127.0.0.1:5000'' nginx_s390x =
     (''docker://docker.io/library/nginx:1.25'',
      ''docker://127.0.0.1:5000/library/nginx:1.25'') \<and>
   resolve (platformManifests [nginx_amd64, nginx_s390x]) windows_amd64 =
     (windows_amd64, zero_ManifestDescriptor, False) \<and>
   copy_refs ''docker.io'' ''library/nginx'' ''1.25'' ''127.0.0.1:5000'' zero_ManifestDescriptor =
     (''docker://docker.io/library/nginx:1.25'',
      ''docker://127.0.0.1:5000/library/nginx:1.25'')"
proof -
  have a: "resolve (platformManifests [nginx_amd64, nginx_s390x]) linux_amd64 =
     (linux_amd64, nginx_amd64, True)"
    by (simp add: resolve_defs sample_defs)
  have b: "resolve (platformManifests [nginx_amd64, nginx_s390x]) linux_s390x =
     (linux_s390x, nginx_s390x, True)"
    by (simp add: resolve_defs sample_defs)
  have c: "resolve (platformManifests [nginx_amd64, nginx_s390x]) windows_amd64 =
     (windows_amd64, zero_ManifestDescriptor, False)"
    by (simp add: resolve_defs sample_defs)
  have da: "Digest nginx_amd64 = ''sha256:aaa''" by (simp add: nginx_amd64_def)
  have db: "Digest nginx_s390x = ''''" by (simp add: nginx_s390x_def)
  have dc: "Digest zero_ManifestDescriptor = ''''" by (simp add: zero_ManifestDescriptor_def)
  show ?thesis
    using a b c
      copy_refs_by_resolution [OF a, of "''docker.io''" "''library/nginx''" "''1.25''" "''127.0.0.1:5000''"]
      copy_refs_by_resolution [OF b, of "''docker.io''" "''library/nginx''" "''1.25''" "''127.0.0.1:5000''"]
      copy_refs_by_resolution [OF c, of "''docker.io''" "''library/nginx''" "''1.25''" "''127.0.0.1:5000''"]
    by (simp add: da db dc)
qed

subsection \<open>Fail-fast, level by level\<close>

lemma aftermath_tool_ok: "aftermath e \<Longrightarrow> tool_ok e"
  by (cases e) (simp_all add: tool_ok_def)

lemma fail_fast_Nil [simp]: "fail_fast [] r"
  by (simp add: fail_fast_def)

lemma fail_fast_Cons [simp]:
  "fail_fast (x # xs) r =
     (if tool_ok x then fail_fast xs r else r = tool_error x \<and> list_all aftermath xs)"
  by (simp add: fail_fast_def)

lemma fail_fast_append [simp]:
  "list_all tool_ok h \<Longrightarrow> fail_fast (h @ ys) r = fail_fast ys r"
  by (simp add: fail_fast_def list_all_iff)

lemma fail_fast_ok: "list_all tool_ok T \<Longrightarrow> fail_fast T r"
  using fail_fast_append [of T "[]" r] by simp

lemma fail_fast_None: "fail_fast T None \<Longrightarrow> list_all tool_ok T"
  by (induction T) (auto simp: tool_ok_def split: if_splits)

lemma fail_fast_snoc:
  "fail_fast T r \<Longrightarrow> aftermath e \<Longrightarrow> fail_fast (T @ [e]) r"
  by (induction T) (auto simp: aftermath_tool_ok split: if_splits)

lemma tool_ok_simps [simp]:
  "tool_ok (StatusStart sm)" "tool_ok (StatusEnd b)" "tool_ok (KlogInfo i)"
  "tool_ok (KlogInfoConfig cf)" "tool_ok (KlogWarning pl n)" "tool_ok (EvStat f sr)"
  "tool_ok (EvParseFile f eo)" "tool_ok (EvAbs f eo)" "tool_ok (EvMkdirTemp d pat eo)"
  "tool_ok (EvRemoveAll d)" "tool_ok (EvNewRegistry d eo)" "tool_ok EvGoListenAndServe"
  "tool_ok EvNewRunner" "tool_ok EvSkopeoCleanup" "tool_ok (EvLogin n v eo)"
  "tool_ok (EvWriteSanitizedConfig cf f eo)" "tool_ok (EvArchiveDirectory d f eo)"
  "tool_ok (EvInspectManifest n eo) = (eo = None)"
  "tool_ok (EvCopy s d opts eo) = (eo = None)"
  "tool_ok (EvCopyManifest l d opts eo) = (eo = None)"
  by (simp_all add: tool_ok_def)

lemma klog_V4_Info_ok [simp]: "list_all tool_ok (klog_V4_Info w s)"
  by (simp add: klog_V4_Info_def)

lemma platform_body_fail_fast:
  assumes "list_all tool_ok (hist st)"
  shows "fail_fast (hist (fst (platform_body w a opts rn im tg pm p st)))
           (snd (platform_body w a opts rn im tg pm p st))"
  using assms
  by (simp add: platform_body_def Let_def fail_fast_ok split: prod.splits option.splits)

lemma platforms_loop_fail_fast:
  "list_all tool_ok (hist st) \<Longrightarrow>
   fail_fast (hist (fst (platforms_loop w a opts rn im tg pm ps st)))
     (snd (platforms_loop w a opts rn im tg pm ps st))"
proof (induction ps arbitrary: st)
  case Nil
  then show ?case by (simp add: fail_fast_ok)
next
  case (Cons p ps)
  obtain st' r where b: "platform_body w a opts rn im tg pm p st = (st', r)"
    by (cases "platform_body w a opts rn im tg pm p st")
  from platform_body_fail_fast [OF Cons.prems, of w a opts rn im tg pm p] b
  have ff: "fail_fast (hist st') r" by simp
  show ?case
  proof (cases r)
    case None
    with ff have "list_all tool_ok (hist st')" by (simp add: fail_fast_None)
    from Cons.IH [OF this] b None show ?thesis by simp
  next
    case (Some e)
    with ff b show ?thesis by simp
  qed
qed

lemma publish_fail_fast:
  assumes "list_all tool_ok (hist st)"
  shows "fail_fast (fst (publish w a opts im tg st)) (snd (publish w a opts im tg st))"
  using assms
  by (simp add: publish_def Let_def split_beta fail_fast_ok split: option.splits)

lemma tag_body_fail_fast:
  assumes "list_all tool_ok h"
  shows "fail_fast (fst (tag_body w plats a opts rn im h tg)) (snd (tag_body w plats a opts rn im h tg))"
proof -
  obtain sl out err where i:
    "skopeo_InspectManifest w
       (h @ [StatusStart (Copying (rn @ ''/'' @ im @ '':'' @ tg) plats)])
       (''docker://'' @ rn @ ''/'' @ im @ '':'' @ tg) = (sl, out, err)"
    by (metis prod_cases3)
  show ?thesis
  proof (cases err)
    case (Some e)
    with i assms show ?thesis by (simp add: tag_body_def Let_def)
  next
    case None
    define st0 where "st0 =
      \<lparr>hist = (h @ [StatusStart (Copying (rn @ ''/'' @ im @ '':'' @ tg) plats)]) @
                [EvInspectManifest (''docker://'' @ rn @ ''/'' @ im @ '':'' @ tg) None] @
                klog_V4_Info w out,
       digestFound = False,
       destImageManifestList = \<lparr>ListVersioned = ListVersioned sl, Manifests = []\<rparr>\<rparr>"
    obtain st r where l:
      "platforms_loop w a opts rn im tg (platformManifests (Manifests sl)) plats st0 = (st, r)"
      by (cases "platforms_loop w a opts rn im tg (platformManifests (Manifests sl)) plats st0")
    have "list_all tool_ok (hist st0)" using assms by (simp add: st0_def)
    from platforms_loop_fail_fast [OF this, of w a opts rn im tg "platformManifests (Manifests sl)" plats] l
    have ff: "fail_fast (hist st) r" by simp
    have unfold: "tag_body w plats a opts rn im h tg =
      (case r of Some e \<Rightarrow> (hist st, Some e) | None \<Rightarrow> publish w a opts im tg st)"
      using i None l by (simp add: tag_body_def st0_def Let_def)
    show ?thesis
    proof (cases r)
      case (Some e)
      with ff unfold show ?thesis by simp
    next
      case rNone: None
      with ff have "list_all tool_ok (hist st)" by (simp add: fail_fast_None)
      with rNone show ?thesis
        by (simp add: unfold publish_fail_fast)
    qed
  qed
qed

lemma tags_loop_fail_fast:
  "list_all tool_ok h \<Longrightarrow>
   fail_fast (fst (tags_loop w plats a opts rn im ts h)) (snd (tags_loop w plats a opts rn im ts h))"
proof (induction ts arbitrary: h)
  case Nil
  then show ?case by (simp add: fail_fast_ok)
next
  case (Cons t ts)
  obtain h' r where b: "tag_body w plats a opts rn im h t = (h', r)"
    by (cases "tag_body w plats a opts rn im h t")
  from tag_body_fail_fast [OF Cons.prems, of w plats a opts rn im t] b
  have ff: "fail_fast h' r" by simp
  show ?case
  proof (cases r)
    case None
    with ff have "list_all tool_ok h'" by (simp add: fail_fast_None)
    from Cons.IH [OF this] b None show ?thesis by simp
  next
    case (Some e)
    with ff b show ?thesis by simp
  qed
qed

lemma images_loop_fail_fast:
  "list_all tool_ok h \<Longrightarrow>
   fail_fast (fst (images_loop w plats a opts rn ims h)) (snd (images_loop w plats a opts rn ims h))"
proof (induction ims arbitrary: h)
  case Nil
  then show ?case by (simp add: fail_fast_ok)
next
  case (Cons i ims)
  obtain im ts where i: "i = (im, ts)" by (cases i)
  obtain h' r where b: "tags_loop w plats a opts rn im ts h = (h', r)"
    by (cases "tags_loop w plats a opts rn im ts h")
  from tags_loop_fail_fast [OF Cons.prems, of w plats a opts rn im ts] b
  have ff: "fail_fast h' r" by simp
  show ?case
  proof (cases r)
    case None
    with ff have "list_all tool_ok h'" by (simp add: fail_fast_None)
    from Cons.IH [OF this] b None i show ?thesis by simp
  next
    case (Some e)
    with ff b i show ?thesis by simp
  qed
qed

lemma registry_body_fail_fast:
  assumes "list_all tool_ok h"
  shows "fail_fast (fst (registry_body w plats a h rn rc)) (snd (registry_body w plats a h rn rc))"
  using assms
  by (simp add: registry_body_def images_loop_fail_fast fail_fast_ok split: option.splits)

lemma registries_loop_fail_fast:
  "list_all tool_ok h \<Longrightarrow>
   fail_fast (fst (registries_loop w plats a rs h)) (snd (registries_loop w plats a rs h))"
proof (induction rs arbitrary: h)
  case Nil
  then show ?case by (simp add: fail_fast_ok)
next
  case (Cons x rs)
  obtain rn rc where x: "x = (rn, rc)" by (cases x)
  obtain h' r where b: "registry_body w plats a h rn rc = (h', r)"
    by (cases "registry_body w plats a h rn rc")
  from registry_body_fail_fast [OF Cons.prems, of w plats a rn rc] b
  have ff: "fail_fast h' r" by simp
  show ?case
  proof (cases r)
    case None
    with ff have "list_all tool_ok h'" by (simp add: fail_fast_None)
    from Cons.IH [OF this] b None x show ?thesis by simp
  next
    case (Some e)
    with ff b x show ?thesis by simp
  qed
qed

lemma copy_and_archive_fail_fast:
  assumes "list_all tool_ok h"
  shows "fail_fast (fst (copy_and_archive w fl cfg td a h)) (snd (copy_and_archive w fl cfg td a h))"
proof -
  obtain h' r where b: "registries_loop w (platforms fl) a cfg h = (h', r)"
    by (cases "registries_loop w (platforms fl) a cfg h")
  from registries_loop_fail_fast [OF assms, of w "platforms fl" a cfg] b
  have ff: "fail_fast h' r" by simp
  show ?thesis
  proof (cases r)
    case None
    with ff have "list_all tool_ok h'" by (simp add: fail_fast_None)
    with b None show ?thesis
      by (simp add: copy_and_archive_def Let_def fail_fast_ok split: option.splits)
  next
    case (Some e)
    with ff b show ?thesis by (simp add: copy_and_archive_def)
  qed
qed

lemma with_runner_fail_fast:
  assumes "list_all tool_ok h"
  shows "fail_fast (fst (with_runner w fl cfg td a h)) (snd (with_runner w fl cfg td a h))"
proof -
  obtain h' r where b: "copy_and_archive w fl cfg td a (h @ [EvNewRunner]) = (h', r)"
    by (cases "copy_and_archive w fl cfg td a (h @ [EvNewRunner])")
  have "list_all tool_ok (h @ [EvNewRunner])" using assms by simp
  from copy_and_archive_fail_fast [OF this, of w fl cfg td a] b
  have "fail_fast h' r" by simp
  then show ?thesis
    by (simp add: with_runner_def b fail_fast_snoc)
qed

lemma with_registry_fail_fast:
  assumes "list_all tool_ok h"
  shows "fail_fast (fst (with_registry w fl cfg td h)) (snd (with_registry w fl cfg td h))"
  using assms
  by (simp add: with_registry_def Let_def with_runner_fail_fast fail_fast_ok split: sum.splits)

lemma with_tempDir_fail_fast:
  assumes "list_all tool_ok h"
  shows "fail_fast (fst (with_tempDir w fl cfg h)) (snd (with_tempDir w fl cfg h))"
proof -
  have "fail_fast (fst (with_registry w fl cfg td (h @ hs)) @ [EvRemoveAll td])
          (snd (with_registry w fl cfg td (h @ hs)))" if "list_all tool_ok hs" for td hs
    using with_registry_fail_fast [of "h @ hs" w fl cfg td] assms that
    by (simp add: fail_fast_snoc)
  then show ?thesis
    using assms
    by (simp add: with_tempDir_def Let_def split_beta fail_fast_ok split: sum.splits)
qed

lemma with_config_fail_fast:
  assumes "list_all tool_ok h"
  shows "fail_fast (fst (with_config w fl h)) (snd (with_config w fl h))"
  using assms
  by (simp add: with_config_def Let_def with_tempDir_fail_fast fail_fast_ok split: sum.splits)

lemma RunE_fail_fast: "fail_fast (fst (RunE w fl)) (snd (RunE w fl))"
  by (simp add: RunE_def Let_def with_config_fail_fast fail_fast_ok split: stat_result.splits)

text \<open>A level returns an error only when one of its tool calls failed.\<close>

lemma platform_body_error_is_tool_error:
  assumes "list_all tool_ok (hist (fst (platform_body w a opts rn im tg pm p st)))"
  shows "snd (platform_body w a opts rn im tg pm p st) = None"
  using assms
  by (simp add: platform_body_def Let_def split_beta split: option.splits if_splits)

lemma platforms_loop_error_is_tool_error:
  "list_all tool_ok (hist (fst (platforms_loop w a opts rn im tg pm ps st))) \<Longrightarrow>
   snd (platforms_loop w a opts rn im tg pm ps st) = None"
proof (induction ps arbitrary: st)
  case Nil
  then show ?case by simp
next
  case (Cons p ps)
  obtain st' r where b: "platform_body w a opts rn im tg pm p st = (st', r)"
    by (cases "platform_body w a opts rn im tg pm p st")
  show ?case
  proof (cases r)
    case None
    with Cons b show ?thesis by simp
  next
    case (Some e)
    with Cons.prems b platform_body_error_is_tool_error [of w a opts rn im tg pm p st]
    show ?thesis by simp
  qed
qed

lemma publish_error_is_tool_error:
  assumes "list_all tool_ok (fst (publish w a opts im tg st))"
  shows "snd (publish w a opts im tg st) = None"
  using assms
  by (simp add: publish_def Let_def split_beta split: option.splits if_splits)

lemma tag_body_error_is_tool_error:
  assumes "list_all tool_ok (fst (tag_body w plats a opts rn im h tg))"
  shows "snd (tag_body w plats a opts rn im h tg) = None"
proof -
  obtain sl out err where i:
    "skopeo_InspectManifest w
       (h @ [StatusStart (Copying (rn @ ''/'' @ im @ '':'' @ tg) plats)])
       (''docker://'' @ rn @ ''/'' @ im @ '':'' @ tg) = (sl, out, err)"
    by (metis prod_cases3)
  show ?thesis
  proof (cases err)
    case (Some e)
    with i assms show ?thesis by (simp add: tag_body_def Let_def)
  next
    case None
    define st0 where "st0 =
      \<lparr>hist = (h @ [StatusStart (Copying (rn @ ''/'' @ im @ '':'' @ tg) plats)]) @
                [EvInspectManifest (''docker://'' @ rn @ ''/'' @ im @ '':'' @ tg) None] @
                klog_V4_Info w out,
       digestFound = False,
       destImageManifestList = \<lparr>ListVersioned = ListVersioned sl, Manifests = []\<rparr>\<rparr>"
    obtain st r where l:
      "platforms_loop w a opts rn im tg (platformManifests (Manifests sl)) plats st0 = (st, r)"
      by (cases "platforms_loop w a opts rn im tg (platformManifests (Manifests sl)) plats st0")
    have unfold: "tag_body w plats a opts rn im h tg =
      (case r of Some e \<Rightarrow> (hist st, Some e) | None \<Rightarrow> publish w a opts im tg st)"
      using i None l by (simp add: tag_body_def st0_def Let_def)
    show ?thesis
    proof (cases r)
      case (Some e)
      with assms unfold have "list_all tool_ok (hist st)" by simp
      with l platforms_loop_error_is_tool_error
        [of w a opts rn im tg "platformManifests (Manifests sl)" plats st0]
      have "r = None" by simp
      with Some show ?thesis by simp
    next
      case rNone: None
      with assms unfold show ?thesis
        by (simp add: publish_error_is_tool_error)
    qed
  qed
qed

subsection \<open>An unresolved platform\<close>

text \<open>
  Claim C4. When a requested platform has no matching manifest even after the fallback
  (\<open>ok = false\<close>), the iteration logs a warning, attempts the tag-qualified copy with the
  platform as filter, and leaves the destination manifest list as it was; the only error
  it can return is the one of the copy tool, and when the copy succeeds the loop goes on
  with the remaining platforms of the tag. A tag none of whose tool calls failed, whatever
  platforms were unresolved in it, is followed by the remaining tags.
\<close>

theorem unresolved_platform_is_not_fatal:
  assumes unresolved: "resolve pm p = (q, platformManifest, False)"
    and copy: "skopeo_Copy w
       (hist st @ [KlogWarning q (registryName @ ''/'' @ imageName @ '':'' @ imageTag)])
       (''docker://'' @ registryName @ ''/'' @ imageName @ '':'' @ imageTag)
       (''docker://'' @ regAddress @ ''/'' @ imageName @ '':'' @ imageTag)
       (skopeoOpts @ [DisableDestTLSVerify, OptOS (os q), OptArch (arch q), OptVariant (variant q)])
       = (out, err)"
  shows "platform_body w regAddress skopeoOpts registryName imageName imageTag pm p st =
      (st\<lparr>hist := hist st @
           [KlogWarning q (registryName @ ''/'' @ imageName @ '':'' @ imageTag),
            EvCopy (''docker://'' @ registryName @ ''/'' @ imageName @ '':'' @ imageTag)
              (''docker://'' @ regAddress @ ''/'' @ imageName @ '':'' @ imageTag)
              (skopeoOpts @
               [DisableDestTLSVerify, OptOS (os q), OptArch (arch q), OptVariant (variant q)])
              err] @
           (case err of
              None \<Rightarrow> klog_V4_Info w out
            | Some e \<Rightarrow> [KlogInfo out, StatusEnd False]),
          digestFound := False\<rparr>, err) \<and>
    (err = None \<longrightarrow>
     platforms_loop w regAddress skopeoOpts registryName imageName imageTag pm (p # ps) st =
     platforms_loop w regAddress skopeoOpts registryName imageName imageTag pm ps
       (fst (platform_body w regAddress skopeoOpts registryName imageName imageTag pm p st))) \<and>
    (list_all tool_ok (fst (tag_body w plats regAddress skopeoOpts registryName imageName h imageTag)) \<longrightarrow>
     tags_loop w plats regAddress skopeoOpts registryName imageName (imageTag # ts) h =
     tags_loop w plats regAddress skopeoOpts registryName imageName ts
       (fst (tag_body w plats regAddress skopeoOpts registryName imageName h imageTag)))"
proof -
  from unresolved have d: "Digest platformManifest = ''''"
    by (auto simp add: resolve_def map_read_def zero_ManifestDescriptor_def Let_def
        split: option.splits if_splits)
  have body: "platform_body w regAddress skopeoOpts registryName imageName imageTag pm p st =
      (st\<lparr>hist := hist st @
           [KlogWarning q (registryName @ ''/'' @ imageName @ '':'' @ imageTag),
            EvCopy (''docker://'' @ registryName @ ''/'' @ imageName @ '':'' @ imageTag)
              (''docker://'' @ regAddress @ ''/'' @ imageName @ '':'' @ imageTag)
              (skopeoOpts @
               [DisableDestTLSVerify, OptOS (os q), OptArch (arch q), OptVariant (variant q)])
              err] @
           (case err of
              None \<Rightarrow> klog_V4_Info w out
            | Some e \<Rightarrow> [KlogInfo out, StatusEnd False]),
          digestFound := False\<rparr>, err)"
    using unresolved copy d
    by (cases err) (simp_all add: platform_body_def copy_refs_def Let_def)
  have platforms: "platforms_loop w regAddress skopeoOpts registryName imageName imageTag pm (p # ps) st =
     platforms_loop w regAddress skopeoOpts registryName imageName imageTag pm ps
       (fst (platform_body w regAddress skopeoOpts registryName imageName imageTag pm p st))"
    if "err = None"
    using body that by simp
  have tags: "tags_loop w plats regAddress skopeoOpts registryName imageName (imageTag # ts) h =
     tags_loop w plats regAddress skopeoOpts registryName imageName ts
       (fst (tag_body w plats regAddress skopeoOpts registryName imageName h imageTag))"
    if "list_all tool_ok (fst (tag_body w plats regAddress skopeoOpts registryName imageName h imageTag))"
    using tag_body_error_is_tool_error [OF that]
    by (simp add: split_beta)
  from body platforms tags show ?thesis by blast
qed

theorem unresolved_platform_is_not_fatal_witness:
  "resolve (platformManifests (Manifests nginx_list)) windows_amd64 =
     (windows_amd64, zero_ManifestDescriptor, False) \<and>
   platform_body quiet_world ''127.0.0.1:5000'' [] ''docker.io'' ''library/nginx'' ''1.25''
     (platformManifests (Manifests nginx_list)) windows_amd64 (start_state [] nginx_list) =
     ((start_state [] nginx_list)
        \<lparr>hist :=
           [KlogWarning windows_amd64 ''docker.io/library/nginx:1.25'',
            EvCopy ''docker://docker.io/library/nginx:1.25''
              ''docker://127.0.0.1:5000/library/nginx:1.25''
              [DisableDestTLSVerify, OptOS ''windows'', OptArch ''amd64'', OptVariant '''']
              None]\<rparr>, None) \<and>
   platforms_loop quiet_world ''127.0.0.1:5000'' [] ''docker.io'' ''library/nginx'' ''1.25''
     (platformManifests (Manifests nginx_list)) [windows_amd64, linux_amd64]
     (start_state [] nginx_list) =
   platforms_loop quiet_world ''127.0.0.1:5000'' [] ''docker.io'' ''library/nginx'' ''1.25''
     (platformManifests (Manifests nginx_list)) [linux_amd64]
     ((start_state [] nginx_list)
        \<lparr>hist :=
           [KlogWarning windows_amd64 ''docker.io/library/nginx:1.25'',
            EvCopy ''docker://docker.io/library/nginx:1.25''
              ''docker://127.0.0.1:5000/library/nginx:1.25''
              [DisableDestTLSVerify, OptOS ''windows'', OptArch ''amd64'', OptVariant '''']
              None]\<rparr>) \<and>
   tags_loop quiet_world [windows_amd64] ''127.0.0.1:5000'' [] ''docker.io'' ''library/nginx''
     [''1.25'', ''1.26''] [] =
   tags_loop quiet_world [windows_amd64] ''127.0.0.1:5000'' [] ''docker.io'' ''library/nginx''
     [''1.26'']
     [StatusStart (Copying ''docker.io/library/nginx:1.25'' [windows_amd64]),
      EvInspectManifest ''docker://docker.io/library/nginx:1.25'' None,
      KlogWarning windows_amd64 ''docker.io/library/nginx:1.25'',
      EvCopy ''docker://docker.io/library/nginx:1.25''
        ''docker://127.0.0.1:5000/library/nginx:1.25''
        [DisableDestTLSVerify, OptOS ''windows'', OptArch ''amd64'', OptVariant ''''] None,
      StatusEnd True]"
proof -
  have a: "resolve (platformManifests (Manifests nginx_list)) windows_amd64 =
     (windows_amd64, zero_ManifestDescriptor, False)"
    by (simp add: resolve_defs sample_defs)
  have b: "skopeo_Copy quiet_world
       (hist (start_state [] nginx_list) @
        [KlogWarning windows_amd64 (''docker.io'' @ ''/'' @ ''library/nginx'' @ '':'' @ ''1.25'')])
       (''docker://'' @ ''docker.io'' @ ''/'' @ ''library/nginx'' @ '':'' @ ''1.25'')
       (''docker://'' @ ''127.0.0.1:5000'' @ ''/'' @ ''library/nginx'' @ '':'' @ ''1.25'')
       ([] @ [DisableDestTLSVerify, OptOS (os windows_amd64), OptArch (arch windows_amd64),
              OptVariant (variant windows_amd64)])
       = ('''', None)"
    by (simp add: quiet_world_def)
  have t: "tag_body quiet_world [windows_amd64] ''127.0.0.1:5000'' [] ''docker.io''
      ''library/nginx'' [] ''1.25'' =
     ([StatusStart (Copying ''docker.io/library/nginx:1.25'' [windows_amd64]),
       EvInspectManifest ''docker://docker.io/library/nginx:1.25'' None,
       KlogWarning windows_amd64 ''docker.io/library/nginx:1.25'',
       EvCopy ''docker://docker.io/library/nginx:1.25''
         ''docker://127.0.0.1:5000/library/nginx:1.25''
         [DisableDestTLSVerify, OptOS ''windows'', OptArch ''amd64'', OptVariant ''''] None,
       StatusEnd True], None)"
    by (simp add: run_defs world_defs sample_defs Let_def)
  from unresolved_platform_is_not_fatal
      [where ps = "[linux_amd64]" and plats = "[windows_amd64]" and h = "[]"
        and ts = "[''1.26'']", OF a b] a
  show ?thesis
    unfolding t
    by (simp add: klog_V4_Info_def quiet_world_def start_state_def windows_amd64_def)
qed

subsection \<open>The ARM64 fallback\<close>

text \<open>
  Claim C9. For a requested platform with architecture \<open>arm64\<close> and an empty variant
  that is absent from the index, the platform used by the rest of the iteration has the
  variant \<open>v8\<close>, whether the lookup of the \<open>v8\<close> key then succeeds or fails: the copy
  request carries the platform filter with the variant \<open>v8\<close> in both cases. When that
  lookup fails as well, the warning names the platform with \<open>v8\<close> and the copy is
  tag-qualified.
\<close>

theorem arm64_variant_stays_v8:
  assumes arm64: "arch p = ''arm64''"
    and no_variant: "variant p = ''''"
    and absent: "pm (platform_String p) = None"
    and copy: "skopeo_Copy w
       (hist st @
        (if pm (platform_String (p\<lparr>variant := ''v8''\<rparr>)) = None
         then [KlogWarning (p\<lparr>variant := ''v8''\<rparr>)
                 (registryName @ ''/'' @ imageName @ '':'' @ imageTag)]
         else []))
       (fst (copy_refs registryName imageName imageTag regAddress
               (fst (map_read pm (platform_String (p\<lparr>variant := ''v8''\<rparr>))))))
       (snd (copy_refs registryName imageName imageTag regAddress
               (fst (map_read pm (platform_String (p\<lparr>variant := ''v8''\<rparr>))))))
       (skopeoOpts @ [DisableDestTLSVerify, OptOS (os p), OptArch ''arm64'', OptVariant ''v8''])
       = (out, err)"
  shows "fst (resolve pm p) = p\<lparr>variant := ''v8''\<rparr> \<and>
    hist (fst (platform_body w regAddress skopeoOpts registryName imageName imageTag pm p st)) =
      hist st @
      (if pm (platform_String (p\<lparr>variant := ''v8''\<rparr>)) = None
       then [KlogWarning (p\<lparr>variant := ''v8''\<rparr>)
               (registryName @ ''/'' @ imageName @ '':'' @ imageTag)]
       else []) @
      [EvCopy
         (fst (copy_refs registryName imageName imageTag regAddress
                 (fst (map_read pm (platform_String (p\<lparr>variant := ''v8''\<rparr>))))))
         (snd (copy_refs registryName imageName imageTag regAddress
                 (fst (map_read pm (platform_String (p\<lparr>variant := ''v8''\<rparr>))))))
         (skopeoOpts @ [DisableDestTLSVerify, OptOS (os p), OptArch ''arm64'', OptVariant ''v8''])
         err] @
      (case err of
         None \<Rightarrow> klog_V4_Info w out
       | Some e \<Rightarrow> [KlogInfo out, StatusEnd False]) \<and>
    (pm (platform_String (p\<lparr>variant := ''v8''\<rparr>)) = None \<longrightarrow>
     copy_refs registryName imageName imageTag regAddress
       (fst (map_read pm (platform_String (p\<lparr>variant := ''v8''\<rparr>)))) =
     (''docker://'' @ registryName @ ''/'' @ imageName @ '':'' @ imageTag,
      ''docker://'' @ regAddress @ ''/'' @ imageName @ '':'' @ imageTag))"
proof -
  have r: "resolve pm p =
      (p\<lparr>variant := ''v8''\<rparr>, map_read pm (platform_String (p\<lparr>variant := ''v8''\<rparr>)))"
    using arm64 absent by (simp add: resolve_def map_read_def Let_def)
  then have first: "fst (resolve pm p) = p\<lparr>variant := ''v8''\<rparr>" by simp
  have ok: "snd (map_read pm k) = (pm k \<noteq> None)" for k
    by (simp add: map_read_def split: option.splits)
  obtain m okv where mr: "map_read pm (platform_String (p\<lparr>variant := ''v8''\<rparr>)) = (m, okv)"
    by (cases "map_read pm (platform_String (p\<lparr>variant := ''v8''\<rparr>))")
  with ok [of "platform_String (p\<lparr>variant := ''v8''\<rparr>)"]
  have okv: "okv = (pm (platform_String (p\<lparr>variant := ''v8''\<rparr>)) \<noteq> None)" by simp
  have second: "hist (fst (platform_body w regAddress skopeoOpts registryName imageName imageTag pm p st)) =
      hist st @
      (if pm (platform_String (p\<lparr>variant := ''v8''\<rparr>)) = None
       then [KlogWarning (p\<lparr>variant := ''v8''\<rparr>)
               (registryName @ ''/'' @ imageName @ '':'' @ imageTag)]
       else []) @
      [EvCopy
         (fst (copy_refs registryName imageName imageTag regAddress
                 (fst (map_read pm (platform_String (p\<lparr>variant := ''v8''\<rparr>))))))
         (snd (copy_refs registryName imageName imageTag regAddress
                 (fst (map_read pm (platform_String (p\<lparr>variant := ''v8''\<rparr>))))))
         (skopeoOpts @ [DisableDestTLSVerify, OptOS (os p), OptArch ''arm64'', OptVariant ''v8''])
         err] @
      (case err of
         None \<Rightarrow> klog_V4_Info w out
       | Some e \<Rightarrow> [KlogInfo out, StatusEnd False])"
    using r mr okv copy arm64
    by (cases err; cases "pm (platform_String (p\<lparr>variant := ''v8''\<rparr>))")
      (simp_all add: platform_body_def Let_def)
  have third: "copy_refs registryName imageName imageTag regAddress
       (fst (map_read pm (platform_String (p\<lparr>variant := ''v8''\<rparr>)))) =
     (''docker://'' @ registryName @ ''/'' @ imageName @ '':'' @ imageTag,
      ''docker://'' @ regAddress @ ''/'' @ imageName @ '':'' @ imageTag)"
    if "pm (platform_String (p\<lparr>variant := ''v8''\<rparr>)) = None"
    using that by (simp add: copy_refs_def map_read_def zero_ManifestDescriptor_def)
  from first second third show ?thesis by blast
qed

theorem arm64_variant_stays_v8_witness:
  "arch linux_arm64 = ''arm64'' \<and> variant linux_arm64 = '''' \<and>
   platformManifests (Manifests nginx_list) ''linux/arm64'' = None \<and>
   platformManifests (Manifests nginx_list) ''linux/arm64/v8'' = Some nginx_arm64 \<and>
   hist (fst (platform_body quiet_world ''127.0.0.1:5000'' [] ''docker.io'' ''library/nginx''
     ''1.25'' (platformManifests (Manifests nginx_list)) linux_arm64
     (start_state [] nginx_list))) =
     [EvCopy ''docker://docker.io/library/nginx@sha256:bbb''
        ''docker://127.0.0.1:5000/library/nginx@sha256:bbb''
        [DisableDestTLSVerify, OptOS ''linux'', OptArch ''arm64'', OptVariant ''v8''] None] \<and>
   platformManifests [nginx_amd64] ''linux/arm64'' = None \<and>
   platformManifests [nginx_amd64] ''linux/arm64/v8'' = None \<and>
   fst (resolve (platformManifests [nginx_amd64]) linux_arm64) =
     \<lparr>os = ''linux'', arch = ''arm64'', variant = ''v8''\<rparr> \<and>
   hist (fst (platform_body quiet_world ''127.0.0.1:5000'' [] ''docker.io'' ''library/nginx''
     ''1.25'' (platformManifests [nginx_amd64]) linux_arm64 (start_state [] nginx_list))) =
     [KlogWarning \<lparr>os = ''linux'', arch = ''arm64'', variant = ''v8''\<rparr>
        ''docker.io/library/nginx:1.25'',
      EvCopy ''docker://docker.io/library/nginx:1.25''
        ''docker://127.0.0.1:5000/library/nginx:1.25''
        [DisableDestTLSVerify, OptOS ''linux'', OptArch ''arm64'', OptVariant ''v8''] None]"
proof -
  have a: "arch linux_arm64 = ''arm64''" by (simp add: linux_arm64_def)
  have b: "variant linux_arm64 = ''''" by (simp add: linux_arm64_def)
  have c: "platformManifests (Manifests nginx_list) (platform_String linux_arm64) = None"
    by (simp add: resolve_defs sample_defs)
  have c8: "platformManifests (Manifests nginx_list)
      (platform_String (linux_arm64\<lparr>variant := ''v8''\<rparr>)) = Some nginx_arm64"
    by (simp add: resolve_defs sample_defs)
  have d: "platformManifests [nginx_amd64] (platform_String linux_arm64) = None"
    by (simp add: resolve_defs sample_defs)
  have d8: "platformManifests [nginx_amd64]
      (platform_String (linux_arm64\<lparr>variant := ''v8''\<rparr>)) = None"
    by (simp add: resolve_defs sample_defs)
  have k: "platform_String linux_arm64 = ''linux/arm64''"
    "platform_String (linux_arm64\<lparr>variant := ''v8''\<rparr>) = ''linux/arm64/v8''"
    by (simp_all add: platform_String_def linux_arm64_def)
  have copies: "skopeo_Copy quiet_world h s t opts = ('''', None)" for h s t opts
    by (simp add: quiet_world_def)
  from arm64_variant_stays_v8
      [where p = linux_arm64 and pm = "platformManifests (Manifests nginx_list)"
        and w = quiet_world and st = "start_state [] nginx_list"
        and registryName = "''docker.io''" and imageName = "''library/nginx''"
        and imageTag = "''1.25''" and regAddress = "''127.0.0.1:5000''" and skopeoOpts = "[]"
        and out = "''''" and err = None, OF a b c copies]
    arm64_variant_stays_v8
      [where p = linux_arm64 and pm = "platformManifests [nginx_amd64]"
        and w = quiet_world and st = "start_state [] nginx_list"
        and registryName = "''docker.io''" and imageName = "''library/nginx''"
        and imageTag = "''1.25''" and regAddress = "''127.0.0.1:5000''" and skopeoOpts = "[]"
        and out = "''''" and err = None, OF a b d copies]
    a b c c8 d d8
  show ?thesis
    unfolding k
    by (simp add: klog_V4_Info_def quiet_world_def start_state_def linux_arm64_def
        copy_refs_def map_read_def zero_ManifestDescriptor_def nginx_arm64_def)
qed

subsection \<open>Publishing the destination manifest list\<close>

text \<open>
  Claim C1 says that the destination manifest list is published exactly when an entry
  was appended to it. The command decides on \<open>digestFound\<close>, which line 158 assigns anew in
  every iteration, so it holds what the last requested platform gave. With the platforms
  \<open>linux/amd64\<close> and \<open>windows/amd64\<close> requested, in that order, from an image that has
  \<open>linux/amd64\<close> and \<open>linux/arm64/v8\<close>: the \<open>linux/amd64\<close> entry is appended, the loop
  ends with \<open>digestFound = false\<close>, and the tag ends with no manifest list copied.
\<close>

theorem appended_entry_not_published:
  "platforms_loop quiet_world ''127.0.0.1:5000'' [] ''docker.io'' ''library/nginx'' ''1.25''
     (platformManifests (Manifests nginx_list)) [linux_amd64, windows_amd64]
     (start_state [] nginx_list) =
     (\<lparr>hist =
         [EvCopy ''docker://docker.io/library/nginx@sha256:aaa''
            ''docker://127.0.0.1:5000/library/nginx@sha256:aaa''
            [DisableDestTLSVerify, OptOS ''linux'', OptArch ''amd64'', OptVariant ''''] None,
          KlogWarning windows_amd64 ''docker.io/library/nginx:1.25'',
          EvCopy ''docker://docker.io/library/nginx:1.25''
            ''docker://127.0.0.1:5000/library/nginx:1.25''
            [DisableDestTLSVerify, OptOS ''windows'', OptArch ''amd64'', OptVariant ''''] None],
       digestFound = False,
       destImageManifestList =
         \<lparr>ListVersioned = ListVersioned nginx_list, Manifests = [nginx_amd64]\<rparr>\<rparr>, None) \<and>
   tag_body quiet_world [linux_amd64, windows_amd64] ''127.0.0.1:5000'' [] ''docker.io''
     ''library/nginx'' [] ''1.25'' =
     ([StatusStart (Copying ''docker.io/library/nginx:1.25'' [linux_amd64, windows_amd64]),
       EvInspectManifest ''docker://docker.io/library/nginx:1.25'' None,
       EvCopy ''docker://docker.io/library/nginx@sha256:aaa''
         ''docker://127.0.0.1:5000/library/nginx@sha256:aaa''
         [DisableDestTLSVerify, OptOS ''linux'', OptArch ''amd64'', OptVariant ''''] None,
       KlogWarning windows_amd64 ''docker.io/library/nginx:1.25'',
       EvCopy ''docker://docker.io/library/nginx:1.25''
         ''docker://127.0.0.1:5000/library/nginx:1.25''
         [DisableDestTLSVerify, OptOS ''windows'', OptArch ''amd64'', OptVariant ''''] None,
       StatusEnd True], None)"
  by (simp add: run_defs world_defs sample_defs Let_def)

text \<open>
  What the flag holds after a loop that ran to its end over a non-empty list of
  platforms: whether the last of them resolved to a non-empty digest.
\<close>

lemma digestFound_is_of_last_platform:
  "platforms_loop w a opts rn im tg pm ps st = (st', None) \<Longrightarrow> ps \<noteq> [] \<Longrightarrow>
   digestFound st' = (Digest (fst (snd (resolve pm (last ps)))) \<noteq> '''')"
proof (induction ps arbitrary: st)
  case Nil
  then show ?case by simp
next
  case (Cons p ps)
  obtain st1 r where b: "platform_body w a opts rn im tg pm p st = (st1, r)"
    by (cases "platform_body w a opts rn im tg pm p st")
  with Cons.prems have r: "r = None" by (cases r) simp_all
  show ?case
  proof (cases ps)
    case Nil
    with Cons.prems b r have "st' = st1" by simp
    moreover have "digestFound st1 = (Digest (fst (snd (resolve pm p))) \<noteq> '''')"
      using b by (auto simp add: platform_body_def Let_def split_beta split: option.splits)
    ultimately show ?thesis using Nil by simp
  next
    case (Cons p' ps')
    with Cons.prems Cons.IH [of st1] b r show ?thesis by simp
  qed
qed

subsection \<open>Fail-fast\<close>

text \<open>
  Claim C5. Whenever an event of the external tool in the history of a run records an
  error, be it a copy, an inspection or the copy of a manifest list, the command returns
  that very error, and after that event the history holds nothing but the log of the
  tool's output, the end of the status line and the deferred cleanups: no further
  platform, tag, image or registry is processed, and no manifest list is published.
\<close>

theorem tool_error_aborts_run:
  assumes run: "RunE w fl = (pre @ c # post, r)"
    and err: "tool_error c = Some e"
  shows "r = Some e \<and> list_all aftermath post"
proof -
  from RunE_fail_fast [of w fl] run
  have ff: "fail_fast (pre @ c # post) r" by simp
  have nok: "\<not> tool_ok c" using err by (simp add: tool_ok_def)
  show ?thesis
  proof (cases "list_all tool_ok pre")
    case True
    with ff nok err show ?thesis by simp
  next
    case False
    then obtain x where x: "x \<in> set pre" "\<not> tool_ok x" by (auto simp: list_all_iff)
    then have d: "dropWhile tool_ok (pre @ c # post) = dropWhile tool_ok pre @ c # post"
      by simp
    from x obtain c0 rest where r: "dropWhile tool_ok pre = c0 # rest"
      by (cases "dropWhile tool_ok pre") auto
    from ff d r have "list_all aftermath (rest @ c # post)"
      by (simp add: fail_fast_def)
    then have "aftermath c" by simp
    with nok show ?thesis by (simp add: aftermath_tool_ok)
  qed
qed

theorem tool_error_aborts_run_witness:
  "RunE copy_fails_world (bundle_flags [linux_amd64, linux_arm64] True) =
     ([StatusStart (Msg ''Parsing image bundle config''),
       EvParseFile ''images.yaml'' None, StatusEnd True,
       StatusStart (Msg ''Creating temporary directory''),
       EvAbs ''images.tar'' None, EvMkdirTemp ''/out'' ''.image-bundle-*'' None,
       StatusEnd True, StatusStart (Msg ''Starting temporary Docker registry''),
       EvNewRegistry ''/out/.image-bundle-1'' None, EvGoListenAndServe,
       StatusEnd True, EvNewRunner, EvLogin ''docker.io'' False None,
       StatusStart (Copying ''docker.io/library/nginx:1.25'' [linux_amd64, linux_arm64]),
       EvInspectManifest ''docker://docker.io/library/nginx:1.25'' None] @
      EvCopy ''docker://docker.io/library/nginx@sha256:aaa''
        ''docker://127.0.0.1:5000/library/nginx@sha256:aaa''
        [DisableDestTLSVerify, OptOS ''linux'', OptArch ''amd64'', OptVariant '''']
        (Some (External ''exit status 1'')) #
      [KlogInfo ''manifest unknown'', StatusEnd False, EvSkopeoCleanup,
       EvRemoveAll ''/out/.image-bundle-1''],
      Some (External ''exit status 1'')) \<and>
   list_all aftermath
     [KlogInfo ''manifest unknown'', StatusEnd False, EvSkopeoCleanup,
      EvRemoveAll ''/out/.image-bundle-1'']"
proof -
  have run: "RunE copy_fails_world (bundle_flags [linux_amd64, linux_arm64] True) =
     ([StatusStart (Msg ''Parsing image bundle config''),
       EvParseFile ''images.yaml'' None, StatusEnd True,
       StatusStart (Msg ''Creating temporary directory''),
       EvAbs ''images.tar'' None, EvMkdirTemp ''/out'' ''.image-bundle-*'' None,
       StatusEnd True, StatusStart (Msg ''Starting temporary Docker registry''),
       EvNewRegistry ''/out/.image-bundle-1'' None, EvGoListenAndServe,
       StatusEnd True, EvNewRunner, EvLogin ''docker.io'' False None,
       StatusStart (Copying ''docker.io/library/nginx:1.25'' [linux_amd64, linux_arm64]),
       EvInspectManifest ''docker://docker.io/library/nginx:1.25'' None] @
      EvCopy ''docker://docker.io/library/nginx@sha256:aaa''
        ''docker://127.0.0.1:5000/library/nginx@sha256:aaa''
        [DisableDestTLSVerify, OptOS ''linux'', OptArch ''amd64'', OptVariant '''']
        (Some (External ''exit status 1'')) #
      [KlogInfo ''manifest unknown'', StatusEnd False, EvSkopeoCleanup,
       EvRemoveAll ''/out/.image-bundle-1''],
      Some (External ''exit status 1''))"
    by (simp add: run_defs world_defs sample_defs Let_def)
  have err: "tool_error (EvCopy ''docker://docker.io/library/nginx@sha256:aaa''
        ''docker://127.0.0.1:5000/library/nginx@sha256:aaa''
        [DisableDestTLSVerify, OptOS ''linux'', OptArch ''amd64'', OptVariant '''']
        (Some (External ''exit status 1''))) = Some (External ''exit status 1'')"
    by simp
  from tool_error_aborts_run [OF run err] run show ?thesis by simp
qed

subsection \<open>Which events a run can hold\<close>

lemma platform_body_events:
  assumes "\<And>e. plain e \<Longrightarrow> P e" and "list_all P (hist st)"
  shows "list_all P (hist (fst (platform_body w a opts rn im tg pm p st)))"
  using assms
  by (simp add: platform_body_def klog_V4_Info_def Let_def split_beta split: option.splits)

lemma platforms_loop_events:
  assumes "\<And>e. plain e \<Longrightarrow> P e"
  shows "list_all P (hist st) \<Longrightarrow>
    list_all P (hist (fst (platforms_loop w a opts rn im tg pm ps st)))"
proof (induction ps arbitrary: st)
  case Nil
  then show ?case by simp
next
  case (Cons p ps)
  obtain st' r where b: "platform_body w a opts rn im tg pm p st = (st', r)"
    by (cases "platform_body w a opts rn im tg pm p st")
  from platform_body_events [of P st w a opts rn im tg pm p] assms Cons.prems b
  have "list_all P (hist st')" by simp
  with Cons.IH [of st'] b show ?case by (cases r) simp_all
qed

lemma publish_events:
  assumes "\<And>e. plain e \<Longrightarrow> P e" and "list_all P (hist st)"
  shows "list_all P (fst (publish w a opts im tg st))"
  using assms
  by (simp add: publish_def klog_V4_Info_def Let_def split_beta split: option.splits)

lemma tag_body_events:
  assumes plain: "\<And>e. plain e \<Longrightarrow> P e"
    and copying: "\<And>s. P (StatusStart (Copying s plats))"
    and h: "list_all P h"
  shows "list_all P (fst (tag_body w plats a opts rn im h tg))"
proof -
  obtain sl out err where i:
    "skopeo_InspectManifest w
       (h @ [StatusStart (Copying (rn @ ''/'' @ im @ '':'' @ tg) plats)])
       (''docker://'' @ rn @ ''/'' @ im @ '':'' @ tg) = (sl, out, err)"
    by (metis prod_cases3)
  show ?thesis
  proof (cases err)
    case (Some e)
    with i plain copying h show ?thesis by (simp add: tag_body_def Let_def)
  next
    case None
    define st0 where "st0 =
      \<lparr>hist = (h @ [StatusStart (Copying (rn @ ''/'' @ im @ '':'' @ tg) plats)]) @
                [EvInspectManifest (''docker://'' @ rn @ ''/'' @ im @ '':'' @ tg) None] @
                klog_V4_Info w out,
       digestFound = False,
       destImageManifestList = \<lparr>ListVersioned = ListVersioned sl, Manifests = []\<rparr>\<rparr>"
    obtain st r where l:
      "platforms_loop w a opts rn im tg (platformManifests (Manifests sl)) plats st0 = (st, r)"
      by (cases "platforms_loop w a opts rn im tg (platformManifests (Manifests sl)) plats st0")
    have "list_all P (hist st0)"
      using plain copying h by (simp add: st0_def klog_V4_Info_def)
    with platforms_loop_events
      [of P st0 w a opts rn im tg "platformManifests (Manifests sl)" plats] plain l
    have st: "list_all P (hist st)" by simp
    have unfold: "tag_body w plats a opts rn im h tg =
      (case r of Some e \<Rightarrow> (hist st, Some e) | None \<Rightarrow> publish w a opts im tg st)"
      using i None l by (simp add: tag_body_def st0_def Let_def)
    from st plain show ?thesis
      by (cases r) (simp_all add: unfold publish_events)
  qed
qed

lemma tags_loop_events:
  assumes plain: "\<And>e. plain e \<Longrightarrow> P e"
    and copying: "\<And>s. P (StatusStart (Copying s plats))"
  shows "list_all P h \<Longrightarrow> list_all P (fst (tags_loop w plats a opts rn im ts h))"
proof (induction ts arbitrary: h)
  case Nil
  then show ?case by simp
next
  case (Cons t ts)
  obtain h' r where b: "tag_body w plats a opts rn im h t = (h', r)"
    by (cases "tag_body w plats a opts rn im h t")
  from tag_body_events [of P plats h w a opts rn im t] plain copying Cons.prems b
  have "list_all P h'" by simp
  with Cons.IH [of h'] b show ?case by (cases r) simp_all
qed

lemma images_loop_events:
  assumes plain: "\<And>e. plain e \<Longrightarrow> P e"
    and copying: "\<And>s. P (StatusStart (Copying s plats))"
  shows "list_all P h \<Longrightarrow> list_all P (fst (images_loop w plats a opts rn ims h))"
proof (induction ims arbitrary: h)
  case Nil
  then show ?case by simp
next
  case (Cons i ims)
  obtain im ts where i: "i = (im, ts)" by (cases i)
  obtain h' r where b: "tags_loop w plats a opts rn im ts h = (h', r)"
    by (cases "tags_loop w plats a opts rn im ts h")
  from tags_loop_events [of P plats h w a opts rn im ts] plain copying Cons.prems b
  have "list_all P h'" by simp
  with Cons.IH [of h'] b i show ?case by (cases r) simp_all
qed

lemma registry_body_events:
  assumes plain: "\<And>e. plain e \<Longrightarrow> P e"
    and copying: "\<And>s. P (StatusStart (Copying s plats))"
    and h: "list_all P h"
  shows "list_all P (fst (registry_body w plats a h rn rc))"
proof (cases "has_credentials rc")
  case True
  then show ?thesis
    using images_loop_events [of P plats h] plain copying h
    by (simp add: registry_body_def)
next
  case False
  show ?thesis
  proof (cases "skopeo_AttemptToLoginToRegistry w h rn (klog_V4_Enabled w)")
    case None
    have "list_all P (h @ [EvLogin rn (klog_V4_Enabled w) None])"
      using plain h by simp
    from images_loop_events [of P plats _ w a _ rn "Images rc", OF plain copying this]
    show ?thesis using False None by (simp add: registry_body_def)
  next
    case (Some e)
    with False plain h show ?thesis by (simp add: registry_body_def)
  qed
qed

lemma registries_loop_events:
  assumes plain: "\<And>e. plain e \<Longrightarrow> P e"
    and copying: "\<And>s. P (StatusStart (Copying s plats))"
  shows "list_all P h \<Longrightarrow> list_all P (fst (registries_loop w plats a rs h))"
proof (induction rs arbitrary: h)
  case Nil
  then show ?case by simp
next
  case (Cons x rs)
  obtain rn rc where x: "x = (rn, rc)" by (cases x)
  obtain h' r where b: "registry_body w plats a h rn rc = (h', r)"
    by (cases "registry_body w plats a h rn rc")
  from registry_body_events [of P plats h w a rn rc] plain copying Cons.prems b
  have "list_all P h'" by simp
  with Cons.IH [of h'] b x show ?case by (cases r) simp_all
qed

lemma copy_and_archive_events:
  assumes plain: "\<And>e. plain e \<Longrightarrow> P e"
    and copying: "\<And>s. P (StatusStart (Copying s (platforms fl)))"
    and h: "list_all P h"
  shows "list_all P (fst (copy_and_archive w fl cfg td a h))"
proof -
  obtain h' r where b: "registries_loop w (platforms fl) a cfg h = (h', r)"
    by (cases "registries_loop w (platforms fl) a cfg h")
  from registries_loop_events [of P "platforms fl" h w a cfg] plain copying h b
  have "list_all P h'" by simp
  with plain b show ?thesis
    by (cases r) (simp_all add: copy_and_archive_def Let_def split: option.splits)
qed

lemma with_runner_events:
  assumes plain: "\<And>e. plain e \<Longrightarrow> P e"
    and copying: "\<And>s. P (StatusStart (Copying s (platforms fl)))"
    and h: "list_all P h"
  shows "list_all P (fst (with_runner w fl cfg td a h))"
proof -
  have "list_all P (h @ [EvNewRunner])" using plain h by simp
  from copy_and_archive_events [of P fl _ w cfg td a, OF plain copying this] plain
  show ?thesis by (simp add: with_runner_def split_beta)
qed

lemma with_registry_events:
  assumes plain: "\<And>e. plain e \<Longrightarrow> P e"
    and copying: "\<And>s. P (StatusStart (Copying s (platforms fl)))"
    and h: "list_all P h"
  shows "list_all P (fst (with_registry w fl cfg td h))"
proof -
  have "list_all P (fst (with_runner w fl cfg td a (h @ hs)))" if "list_all P hs" for a hs
    using with_runner_events [of P fl "h @ hs" w cfg td a] plain copying h that by simp
  with plain h show ?thesis
    by (simp add: with_registry_def Let_def split: sum.splits)
qed

lemma with_tempDir_events:
  assumes plain: "\<And>e. plain e \<Longrightarrow> P e"
    and copying: "\<And>s. P (StatusStart (Copying s (platforms fl)))"
    and h: "list_all P h"
  shows "list_all P (fst (with_tempDir w fl cfg h))"
proof -
  have "list_all P (fst (with_registry w fl cfg td (h @ hs)))" if "list_all P hs" for td hs
    using with_registry_events [of P fl "h @ hs" w cfg td] plain copying h that by simp
  with plain h show ?thesis
    by (simp add: with_tempDir_def Let_def split_beta split: sum.splits)
qed

lemma with_config_events:
  assumes plain: "\<And>e. plain e \<Longrightarrow> P e"
    and copying: "\<And>s. P (StatusStart (Copying s (platforms fl)))"
    and h: "list_all P h"
  shows "list_all P (fst (with_config w fl h))"
proof -
  have "list_all P (fst (with_tempDir w fl cfg (h @ hs)))" if "list_all P hs" for cfg hs
    using with_tempDir_events [of P fl "h @ hs" w cfg] plain copying h that by simp
  with plain h show ?thesis
    by (simp add: with_config_def Let_def split: sum.splits)
qed

lemma plain_not_stat: "plain e \<Longrightarrow> \<not> is_stat e"
  by (cases e) simp_all

lemma plain_copying_of: "plain e \<Longrightarrow> copying_of plats e"
  by (induction plats e rule: copying_of.induct) simp_all

subsection \<open>The check of the output file\<close>

text \<open>
  Claim C7. Without the overwrite flag, when \<open>os.Stat\<close> finds the output file, the
  command returns the error of line 47 and its whole history is the status line, the
  call of \<open>os.Stat\<close> and the end of the status line: the configuration is not parsed, no
  temporary directory is made, no registry started, nothing copied. With the overwrite
  flag, no run ever calls \<open>os.Stat\<close>.
\<close>

theorem output_file_checked_first:
  "(\<not> overwrite fl \<and>
    os_Stat w [StatusStart (Msg ''Checking if output file already exists'')] (outputFile fl) =
      StatFound \<longrightarrow>
    RunE w fl =
      ([StatusStart (Msg ''Checking if output file already exists''),
        EvStat (outputFile fl) StatFound, StatusEnd False],
       Some (AlreadyExists (outputFile fl)))) \<and>
   (overwrite fl \<longrightarrow> list_all (\<lambda>e. \<not> is_stat e) (fst (RunE w fl)))"
proof -
  have "list_all (\<lambda>e. \<not> is_stat e) (fst (with_config w fl []))"
    by (rule with_config_events) (simp_all add: plain_not_stat)
  then show ?thesis by (simp add: RunE_def)
qed

theorem output_file_checked_first_witness:
  "\<not> overwrite (bundle_flags [linux_amd64] False) \<and>
   os_Stat output_exists_world [StatusStart (Msg ''Checking if output file already exists'')]
     (outputFile (bundle_flags [linux_amd64] False)) = StatFound \<and>
   RunE output_exists_world (bundle_flags [linux_amd64] False) =
     ([StatusStart (Msg ''Checking if output file already exists''),
       EvStat ''images.tar'' StatFound, StatusEnd False],
      Some (AlreadyExists ''images.tar'')) \<and>
   overwrite (bundle_flags [linux_amd64] True) \<and>
   list_all (\<lambda>e. \<not> is_stat e) (fst (RunE output_exists_world (bundle_flags [linux_amd64] True)))"
  using output_file_checked_first [of "bundle_flags [linux_amd64] False" output_exists_world]
    output_file_checked_first [of "bundle_flags [linux_amd64] True" output_exists_world]
  by (simp add: bundle_flags_def output_exists_world_def quiet_world_def)

subsection \<open>The temporary directory\<close>

text \<open>
  When the command returns, on any path after the temporary directory was made, the
  deferred removal of that directory is the last event of its history.
\<close>

lemma return_removes_tempDir:
  assumes "filepath_Abs w (h @ [StatusStart (Msg ''Creating temporary directory'')])
      (outputFile fl) = Inr outputFileAbs"
    and "os_MkdirTemp w
      (h @ [StatusStart (Msg ''Creating temporary directory''), EvAbs (outputFile fl) None])
      (filepath_Dir w outputFileAbs) ''.image-bundle-*'' = Inr tempDir"
  shows "last (fst (with_tempDir w fl cfg h)) = EvRemoveAll tempDir"
  using assms by (simp add: with_tempDir_def Let_def split_beta)

lemma serve_watch_serving:
  "(\<And>h. registry_ListenAndServe w h = None) \<Longrightarrow> serve_watch w h es = None"
  by (induction es arbitrary: h) simp_all

text \<open>While the registry keeps serving, the process ends when the command returns.\<close>

lemma command_returns_when_serving:
  assumes "\<And>h. registry_ListenAndServe w h = None"
  shows "command w fl = (fst (RunE w fl), Returned (snd (RunE w fl)))"
  using assms
  by (simp add: command_def split_beta serve_watch_serving split: list.splits)

text \<open>
  Claim C8 says that the temporary directory is removed on every path, the one where the
  registry fails to serve and the process exits with code 2 included. On that path the
  goroutine calls \<open>os.Exit(2)\<close>, the command never returns and its deferred calls are
  not run: the history of the process holds the successful \<open>os.MkdirTemp\<close> and ends with
  the exit, with no \<open>os.RemoveAll\<close>.
\<close>

theorem exit_skips_removal:
  "command serve_fails_world (bundle_flags [linux_amd64] False) =
     ([StatusStart (Msg ''Checking if output file already exists''),
       EvStat ''images.tar'' StatNotExist, StatusEnd True,
       StatusStart (Msg ''Parsing image bundle config''),
       EvParseFile ''images.yaml'' None, StatusEnd True,
       StatusStart (Msg ''Creating temporary directory''),
       EvAbs ''images.tar'' None, EvMkdirTemp ''/out'' ''.image-bundle-*'' None,
       StatusEnd True, StatusStart (Msg ''Starting temporary Docker registry''),
       EvNewRegistry ''/out/.image-bundle-1'' None, EvGoListenAndServe,
       Stderr (External ''listen tcp 127.0.0.1:5000: bind: address already in use''),
       OsExit 2],
      Exited 2) \<and>
   EvRemoveAll ''/out/.image-bundle-1'' \<notin>
     set (fst (command serve_fails_world (bundle_flags [linux_amd64] False)))"
proof -
  have "command serve_fails_world (bundle_flags [linux_amd64] False) =
     ([StatusStart (Msg ''Checking if output file already exists''),
       EvStat ''images.tar'' StatNotExist, StatusEnd True,
       StatusStart (Msg ''Parsing image bundle config''),
       EvParseFile ''images.yaml'' None, StatusEnd True,
       StatusStart (Msg ''Creating temporary directory''),
       EvAbs ''images.tar'' None, EvMkdirTemp ''/out'' ''.image-bundle-*'' None,
       StatusEnd True, StatusStart (Msg ''Starting temporary Docker registry''),
       EvNewRegistry ''/out/.image-bundle-1'' None, EvGoListenAndServe,
       Stderr (External ''listen tcp 127.0.0.1:5000: bind: address already in use''),
       OsExit 2],
      Exited 2)"
    by (simp add: command_def run_defs world_defs sample_defs Let_def)
  then show ?thesis by simp
qed

subsection \<open>The status line of a tag\<close>

text \<open>Every status line of line 120 prints the platforms of the flags.\<close>

lemma status_lines_print_platforms:
  assumes "StatusStart (Copying s pl) \<in> set (fst (RunE w fl))"
  shows "pl = platforms fl"
proof -
  have "list_all (copying_of (platforms fl)) (fst (with_config w fl h))"
    if "list_all (copying_of (platforms fl)) h" for h
    using that by (intro with_config_events) (simp_all add: plain_copying_of)
  then have "list_all (copying_of (platforms fl)) (fst (RunE w fl))"
    by (simp add: RunE_def Let_def split: stat_result.splits)
  with assms have "copying_of (platforms fl) (StatusStart (Copying s pl))"
    unfolding list_all_iff by blast
  then show ?thesis by simp
qed

subsection \<open>The requested platforms\<close>

lemma replay_append:
  "replay w plats h pend (xs @ ys) =
     (case replay w plats h pend xs of
        None \<Rightarrow> None
      | Some pend' \<Rightarrow> replay w plats (h @ xs) pend' ys)"
  by (induction xs arbitrary: h pend) (simp_all split: option.splits)

lemma replay_snoc:
  "replay w plats [] [] (T @ ys) =
     (case replay w plats [] [] T of
        None \<Rightarrow> None
      | Some pend \<Rightarrow> replay w plats T pend ys)"
  using replay_append [of w plats "[]" "[]" T ys]
  by (cases "replay w plats [] [] T") simp_all

lemma replay_step_neutral: "neutral e \<Longrightarrow> replay_step w plats h pend e = Some pend"
  by (induction w plats h pend e rule: replay_step.induct) simp_all

lemma replay_neutral: "list_all neutral xs \<Longrightarrow> replay w plats h pend xs = Some pend"
  by (induction xs arbitrary: h) (simp_all add: replay_step_neutral)

lemma replay_neutral_snoc:
  "list_all neutral xs \<Longrightarrow> replay w plats [] [] (T @ xs) = replay w plats [] [] T"
  by (simp add: replay_snoc replay_neutral split: option.splits)

lemma iterates_over_iff:
  "iterates_over w plats T r =
     (replay w plats [] [] T \<noteq> None \<and> (r = None \<longrightarrow> replay w plats [] [] T = Some []))"
  by (cases r) (auto simp add: iterates_over_def)

lemma iterates_over_neutral:
  "list_all neutral xs \<Longrightarrow> iterates_over w plats (T @ xs) r = iterates_over w plats T r"
  by (simp add: iterates_over_iff replay_neutral_snoc)

lemma iterates_over_abort:
  "iterates_over w plats T None \<Longrightarrow> list_all neutral xs \<Longrightarrow>
   iterates_over w plats (T @ xs) r"
  by (simp add: iterates_over_iff replay_neutral_snoc)

lemma iterates_over_defer:
  "iterates_over w plats T r \<Longrightarrow> list_all neutral xs \<Longrightarrow> iterates_over w plats (T @ xs) r"
  by (simp add: iterates_over_neutral)

lemma klog_V4_Info_neutral [simp]: "list_all neutral (klog_V4_Info w s)"
  by (simp add: klog_V4_Info_def)

lemma filter_platform_of_copy [simp]:
  "filter_platform (opts @ [d, OptOS (os q), OptArch (arch q), OptVariant (variant q)]) = Some q"
  by (simp add: filter_platform_def)

lemma platform_body_replay:
  assumes "replay w plats [] [] (hist st) = Some (fst (resolve pm p) # rest)"
  shows "replay w plats [] [] (hist (fst (platform_body w a opts rn im tg pm p st))) = Some rest"
  using assms
  by (simp add: platform_body_def Let_def split_beta replay_snoc replay_neutral
      split: option.splits)

lemma platforms_loop_replay:
  "replay w plats [] [] (hist st) = Some (map (\<lambda>p. fst (resolve pm p)) ps @ rest) \<Longrightarrow>
   replay w plats [] [] (hist (fst (platforms_loop w a opts rn im tg pm ps st))) \<noteq> None \<and>
   (snd (platforms_loop w a opts rn im tg pm ps st) = None \<longrightarrow>
    replay w plats [] [] (hist (fst (platforms_loop w a opts rn im tg pm ps st))) = Some rest)"
proof (induction ps arbitrary: st)
  case Nil
  then show ?case by simp
next
  case (Cons p ps)
  obtain st' r where b: "platform_body w a opts rn im tg pm p st = (st', r)"
    by (cases "platform_body w a opts rn im tg pm p st")
  from Cons.prems
  have "replay w plats [] [] (hist st) =
      Some (fst (resolve pm p) # (map (\<lambda>p. fst (resolve pm p)) ps @ rest))"
    by simp
  from platform_body_replay [OF this, of a opts rn im tg] b
  have st': "replay w plats [] [] (hist st') = Some (map (\<lambda>p. fst (resolve pm p)) ps @ rest)"
    by simp
  show ?case
  proof (cases r)
    case None
    with Cons.IH [OF st'] b show ?thesis by simp
  next
    case (Some e)
    with st' b show ?thesis by simp
  qed
qed

lemma publish_replay:
  "replay w plats [] [] (fst (publish w a opts im tg st)) = replay w plats [] [] (hist st)"
  by (simp add: publish_def Let_def split_beta replay_neutral_snoc split: option.splits)

lemma tag_body_iterates:
  assumes "replay w plats [] [] h = Some []"
  shows "iterates_over w plats (fst (tag_body w plats a opts rn im h tg))
           (snd (tag_body w plats a opts rn im h tg))"
proof -
  obtain sl out err where i:
    "skopeo_InspectManifest w
       (h @ [StatusStart (Copying (rn @ ''/'' @ im @ '':'' @ tg) plats)])
       (''docker://'' @ rn @ ''/'' @ im @ '':'' @ tg) = (sl, out, err)"
    by (metis prod_cases3)
  have started: "replay w plats [] []
      (h @ [StatusStart (Copying (rn @ ''/'' @ im @ '':'' @ tg) plats)]) =
      Some (map (\<lambda>p. fst (resolve (platformManifests (Manifests sl)) p)) plats)"
    using assms i by (simp add: replay_snoc tag_platforms_def)
  show ?thesis
  proof (cases err)
    case (Some e)
    have "replay w plats [] []
        ((h @ [StatusStart (Copying (rn @ ''/'' @ im @ '':'' @ tg) plats)]) @
         [EvInspectManifest (''docker://'' @ rn @ ''/'' @ im @ '':'' @ tg) (Some e),
          KlogInfo out, StatusEnd False]) \<noteq> None"
      using started by (simp add: replay_neutral_snoc del: append_assoc)
    with i Some show ?thesis by (simp add: tag_body_def Let_def iterates_over_iff)
  next
    case None
    define st0 where "st0 =
      \<lparr>hist = (h @ [StatusStart (Copying (rn @ ''/'' @ im @ '':'' @ tg) plats)]) @
                ([EvInspectManifest (''docker://'' @ rn @ ''/'' @ im @ '':'' @ tg) None] @
                 klog_V4_Info w out),
       digestFound = False,
       destImageManifestList = \<lparr>ListVersioned = ListVersioned sl, Manifests = []\<rparr>\<rparr>"
    obtain st r where l:
      "platforms_loop w a opts rn im tg (platformManifests (Manifests sl)) plats st0 = (st, r)"
      by (cases "platforms_loop w a opts rn im tg (platformManifests (Manifests sl)) plats st0")
    have "replay w plats [] [] (hist st0) =
        Some (map (\<lambda>p. fst (resolve (platformManifests (Manifests sl)) p)) plats @ [])"
      using started by (simp add: st0_def replay_neutral_snoc del: append_assoc)
    from platforms_loop_replay [OF this, of a opts rn im tg] l
    have looped: "replay w plats [] [] (hist st) \<noteq> None"
      "r = None \<longrightarrow> replay w plats [] [] (hist st) = Some []"
      by simp_all
    have unfold: "tag_body w plats a opts rn im h tg =
      (case r of Some e \<Rightarrow> (hist st, Some e) | None \<Rightarrow> publish w a opts im tg st)"
      using i None l by (simp add: tag_body_def st0_def Let_def)
    show ?thesis
    proof (cases r)
      case (Some e)
      with looped unfold show ?thesis by (simp add: iterates_over_iff)
    next
      case rNone: None
      with looped have "replay w plats [] [] (fst (publish w a opts im tg st)) = Some []"
        by (simp add: publish_replay)
      with rNone unfold show ?thesis
        by (simp add: iterates_over_iff)
    qed
  qed
qed

lemma tags_loop_iterates:
  "replay w plats [] [] h = Some [] \<Longrightarrow>
   iterates_over w plats (fst (tags_loop w plats a opts rn im ts h))
     (snd (tags_loop w plats a opts rn im ts h))"
proof (induction ts arbitrary: h)
  case Nil
  then show ?case by (simp add: iterates_over_iff)
next
  case (Cons t ts)
  obtain h' r where b: "tag_body w plats a opts rn im h t = (h', r)"
    by (cases "tag_body w plats a opts rn im h t")
  from tag_body_iterates [OF Cons.prems, of a opts rn im t] b
  have it: "iterates_over w plats h' r" by simp
  show ?case
  proof (cases r)
    case None
    with it have "replay w plats [] [] h' = Some []" by (simp add: iterates_over_iff)
    from Cons.IH [OF this] b None show ?thesis by simp
  next
    case (Some e)
    with it b show ?thesis by simp
  qed
qed

lemma images_loop_iterates:
  "replay w plats [] [] h = Some [] \<Longrightarrow>
   iterates_over w plats (fst (images_loop w plats a opts rn ims h))
     (snd (images_loop w plats a opts rn ims h))"
proof (induction ims arbitrary: h)
  case Nil
  then show ?case by (simp add: iterates_over_iff)
next
  case (Cons i ims)
  obtain im ts where i: "i = (im, ts)" by (cases i)
  obtain h' r where b: "tags_loop w plats a opts rn im ts h = (h', r)"
    by (cases "tags_loop w plats a opts rn im ts h")
  from tags_loop_iterates [OF Cons.prems, of a opts rn im ts] b
  have it: "iterates_over w plats h' r" by simp
  show ?case
  proof (cases r)
    case None
    with it have "replay w plats [] [] h' = Some []" by (simp add: iterates_over_iff)
    from Cons.IH [OF this] b None i show ?thesis by simp
  next
    case (Some e)
    with it b i show ?thesis by simp
  qed
qed

lemma registry_body_iterates:
  assumes "replay w plats [] [] h = Some []"
  shows "iterates_over w plats (fst (registry_body w plats a h rn rc))
           (snd (registry_body w plats a h rn rc))"
proof (cases "has_credentials rc")
  case True
  with images_loop_iterates [OF assms] show ?thesis
    by (simp add: registry_body_def)
next
  case False
  have login: "replay w plats [] [] (h @ [EvLogin rn v eo]) = Some []" for v eo
    using assms by (simp add: replay_neutral_snoc)
  show ?thesis
  proof (cases "skopeo_AttemptToLoginToRegistry w h rn (klog_V4_Enabled w)")
    case None
    with False images_loop_iterates [OF login] show ?thesis
      by (simp add: registry_body_def)
  next
    case (Some e)
    with False login show ?thesis
      by (simp add: registry_body_def iterates_over_iff)
  qed
qed

lemma registries_loop_iterates:
  "replay w plats [] [] h = Some [] \<Longrightarrow>
   iterates_over w plats (fst (registries_loop w plats a rs h))
     (snd (registries_loop w plats a rs h))"
proof (induction rs arbitrary: h)
  case Nil
  then show ?case by (simp add: iterates_over_iff)
next
  case (Cons x rs)
  obtain rn rc where x: "x = (rn, rc)" by (cases x)
  obtain h' r where b: "registry_body w plats a h rn rc = (h', r)"
    by (cases "registry_body w plats a h rn rc")
  from registry_body_iterates [OF Cons.prems, of a rn rc] b
  have it: "iterates_over w plats h' r" by simp
  show ?case
  proof (cases r)
    case None
    with it have "replay w plats [] [] h' = Some []" by (simp add: iterates_over_iff)
    from Cons.IH [OF this] b None x show ?thesis by simp
  next
    case (Some e)
    with it b x show ?thesis by simp
  qed
qed

lemma copy_and_archive_iterates:
  assumes "replay w (platforms fl) [] [] h = Some []"
  shows "iterates_over w (platforms fl) (fst (copy_and_archive w fl cfg td a h))
           (snd (copy_and_archive w fl cfg td a h))"
proof -
  obtain h' r where b: "registries_loop w (platforms fl) a cfg h = (h', r)"
    by (cases "registries_loop w (platforms fl) a cfg h")
  from registries_loop_iterates [OF assms, of a cfg] b
  have it: "iterates_over w (platforms fl) h' r" by simp
  show ?thesis
  proof (cases r)
    case None
    with it b show ?thesis
      by (simp add: copy_and_archive_def Let_def iterates_over_abort split: option.splits)
  next
    case (Some e)
    with it b show ?thesis by (simp add: copy_and_archive_def)
  qed
qed

lemma with_runner_iterates:
  assumes "replay w (platforms fl) [] [] h = Some []"
  shows "iterates_over w (platforms fl) (fst (with_runner w fl cfg td a h))
           (snd (with_runner w fl cfg td a h))"
proof -
  have "replay w (platforms fl) [] [] (h @ [EvNewRunner]) = Some []"
    using assms by (simp add: replay_neutral_snoc)
  from copy_and_archive_iterates [OF this, of cfg td a]
  show ?thesis by (simp add: with_runner_def split_beta iterates_over_defer)
qed

lemma with_registry_iterates:
  assumes "replay w (platforms fl) [] [] h = Some []"
  shows "iterates_over w (platforms fl) (fst (with_registry w fl cfg td h))
           (snd (with_registry w fl cfg td h))"
proof -
  have ok: "iterates_over w (platforms fl) h None"
    using assms by (simp add: iterates_over_iff)
  have "iterates_over w (platforms fl) (fst (with_runner w fl cfg td a (h @ hs)))
          (snd (with_runner w fl cfg td a (h @ hs)))" if "list_all neutral hs" for a hs
    using that assms by (intro with_runner_iterates) (simp add: replay_neutral_snoc)
  with ok show ?thesis
    by (simp add: with_registry_def Let_def iterates_over_abort split: sum.splits)
qed

lemma with_tempDir_iterates:
  assumes "replay w (platforms fl) [] [] h = Some []"
  shows "iterates_over w (platforms fl) (fst (with_tempDir w fl cfg h))
           (snd (with_tempDir w fl cfg h))"
proof -
  have ok: "iterates_over w (platforms fl) h None"
    using assms by (simp add: iterates_over_iff)
  have "iterates_over w (platforms fl)
          (fst (with_registry w fl cfg td (h @ hs)) @ [EvRemoveAll td])
          (snd (with_registry w fl cfg td (h @ hs)))" if "list_all neutral hs" for td hs
    using that assms
    by (intro iterates_over_defer with_registry_iterates) (simp_all add: replay_neutral_snoc)
  with ok show ?thesis
    by (simp add: with_tempDir_def Let_def split_beta iterates_over_abort split: sum.splits)
qed

lemma with_config_iterates:
  assumes "replay w (platforms fl) [] [] h = Some []"
  shows "iterates_over w (platforms fl) (fst (with_config w fl h)) (snd (with_config w fl h))"
proof -
  have ok: "iterates_over w (platforms fl) h None"
    using assms by (simp add: iterates_over_iff)
  have "iterates_over w (platforms fl) (fst (with_tempDir w fl cfg (h @ hs)))
          (snd (with_tempDir w fl cfg (h @ hs)))" if "list_all neutral hs" for cfg hs
    using that assms by (intro with_tempDir_iterates) (simp add: replay_neutral_snoc)
  with ok show ?thesis
    by (simp add: with_config_def Let_def iterates_over_abort split: sum.splits)
qed

text \<open>
  Claim C10. The slice of requested platforms is never changed by a run: the assignment
  of line 150 is to the loop variable, a copy of the element. In every run, in whatever
  registry, image and tag and after whatever fallbacks, the status line that opens a tag
  prints the platforms exactly as the operator gave them, and the warnings and copies of
  the tag are, in order, those of these platforms, each as \<open>resolve\<close> leaves it against
  the index of that tag; a run that succeeds has done so for all of them in every tag.
\<close>

theorem platforms_never_mutated:
  "iterates_over w (platforms fl) (fst (RunE w fl)) (snd (RunE w fl))"
proof -
  have "iterates_over w (platforms fl) (fst (with_config w fl hs)) (snd (with_config w fl hs))"
    if "list_all neutral hs" for hs
    using that by (intro with_config_iterates) (simp add: replay_neutral)
  moreover have "iterates_over w (platforms fl) hs r" if "list_all neutral hs" for hs r
    using that by (simp add: iterates_over_iff replay_neutral)
  ultimately show ?thesis
    by (simp add: RunE_def Let_def split: stat_result.splits)
qed

theorem platforms_never_mutated_witness:
  "RunE two_tag_world (bundle_flags [linux_arm64] True) =
     ([StatusStart (Msg ''Parsing image bundle config''),
       EvParseFile ''images.yaml'' None, StatusEnd True,
       StatusStart (Msg ''Creating temporary directory''),
       EvAbs ''images.tar'' None, EvMkdirTemp ''/out'' ''.image-bundle-*'' None,
       StatusEnd True, StatusStart (Msg ''Starting temporary Docker registry''),
       EvNewRegistry ''/out/.image-bundle-1'' None, EvGoListenAndServe,
       StatusEnd True, EvNewRunner, EvLogin ''docker.io'' False None,
       StatusStart (Copying ''docker.io/library/nginx:1.25'' [linux_arm64]),
       EvInspectManifest ''docker://docker.io/library/nginx:1.25'' None,
       EvCopy ''docker://docker.io/library/nginx@sha256:bbb''
         ''docker://127.0.0.1:5000/library/nginx@sha256:bbb''
         [DisableDestTLSVerify, OptOS ''linux'', OptArch ''arm64'', OptVariant ''v8''] None,
       EvCopyManifest
         \<lparr>ListVersioned = ListVersioned nginx_list, Manifests = [nginx_arm64]\<rparr>
         ''docker://127.0.0.1:5000/library/nginx:1.25'' [DisableDestTLSVerify] None,
       StatusEnd True,
       StatusStart (Copying ''docker.io/library/nginx:1.26'' [linux_arm64]),
       EvInspectManifest ''docker://docker.io/library/nginx:1.26'' None,
       EvCopy ''docker://docker.io/library/nginx@sha256:ccc''
         ''docker://127.0.0.1:5000/library/nginx@sha256:ccc''
         [DisableDestTLSVerify, OptOS ''linux'', OptArch ''arm64'', OptVariant ''''] None,
       EvCopyManifest
         \<lparr>ListVersioned = ListVersioned nginx_list, Manifests = [nginx_arm64_plain]\<rparr>
         ''docker://127.0.0.1:5000/library/nginx:1.26'' [DisableDestTLSVerify] None,
       StatusEnd True,
       EvWriteSanitizedConfig nginx_config ''/out/.image-bundle-1/images.yaml'' None,
       StatusStart (Archiving ''images.tar''),
       EvArchiveDirectory ''/out/.image-bundle-1'' ''images.tar'' None,
       StatusEnd True, EvSkopeoCleanup, EvRemoveAll ''/out/.image-bundle-1''],
      None) \<and>
   replay two_tag_world [linux_arm64] [] []
     (fst (RunE two_tag_world (bundle_flags [linux_arm64] True))) = Some []"
proof -
  have run: "RunE two_tag_world (bundle_flags [linux_arm64] True) =
     ([StatusStart (Msg ''Parsing image bundle config''),
       EvParseFile ''images.yaml'' None, StatusEnd True,
       StatusStart (Msg ''Creating temporary directory''),
       EvAbs ''images.tar'' None, EvMkdirTemp ''/out'' ''.image-bundle-*'' None,
       StatusEnd True, StatusStart (Msg ''Starting temporary Docker registry''),
       EvNewRegistry ''/out/.image-bundle-1'' None, EvGoListenAndServe,
       StatusEnd True, EvNewRunner, EvLogin ''docker.io'' False None,
       StatusStart (Copying ''docker.io/library/nginx:1.25'' [linux_arm64]),
       EvInspectManifest ''docker://docker.io/library/nginx:1.25'' None,
       EvCopy ''docker://docker.io/library/nginx@sha256:bbb''
         ''docker://127.0.0.1:5000/library/nginx@sha256:bbb''
         [DisableDestTLSVerify, OptOS ''linux'', OptArch ''arm64'', OptVariant ''v8''] None,
       EvCopyManifest
         \<lparr>ListVersioned = ListVersioned nginx_list, Manifests = [nginx_arm64]\<rparr>
         ''docker://127.0.0.1:5000/library/nginx:1.25'' [DisableDestTLSVerify] None,
       StatusEnd True,
       StatusStart (Copying ''docker.io/library/nginx:1.26'' [linux_arm64]),
       EvInspectManifest ''docker://docker.io/library/nginx:1.26'' None,
       EvCopy ''docker://docker.io/library/nginx@sha256:ccc''
         ''docker://127.0.0.1:5000/library/nginx@sha256:ccc''
         [DisableDestTLSVerify, OptOS ''linux'', OptArch ''arm64'', OptVariant ''''] None,
       EvCopyManifest
         \<lparr>ListVersioned = ListVersioned nginx_list, Manifests = [nginx_arm64_plain]\<rparr>
         ''docker://127.0.0.1:5000/library/nginx:1.26'' [DisableDestTLSVerify] None,
       StatusEnd True,
       EvWriteSanitizedConfig nginx_config ''/out/.image-bundle-1/images.yaml'' None,
       StatusStart (Archiving ''images.tar''),
       EvArchiveDirectory ''/out/.image-bundle-1'' ''images.tar'' None,
       StatusEnd True, EvSkopeoCleanup, EvRemoveAll ''/out/.image-bundle-1''],
      None)"
    by (simp add: run_defs world_defs sample_defs two_tag_world_def nginx_list_126_def
        nginx_arm64_plain_def Let_def)
  have p: "platforms (bundle_flags [linux_arm64] True) = [linux_arm64]"
    by (simp add: bundle_flags_def)
  from platforms_never_mutated [of two_tag_world "bundle_flags [linux_arm64] True"]
  have "replay two_tag_world [linux_arm64] [] []
     (fst (RunE two_tag_world (bundle_flags [linux_arm64] True))) = Some []"
    unfolding p by (simp add: iterates_over_def run)
  with run show ?thesis by simp
qed

text \<open>
  A history in which the second tag is handled as if the fallback of the first tag had
  been written back to the slice (the lookup of \<open>linux/arm64/v8\<close> misses in the second
  tag, so a warning and a tag-qualified copy follow) does not replay.
\<close>

lemma replay_rejects_rewritten_platforms:
  "replay two_tag_world [linux_arm64] [] []
     [StatusStart (Copying ''docker.io/library/nginx:1.25'' [linux_arm64]),
      EvInspectManifest ''docker://docker.io/library/nginx:1.25'' None,
      EvCopy ''docker://docker.io/library/nginx@sha256:bbb''
        ''docker://127.0.0.1:5000/library/nginx@sha256:bbb''
        [DisableDestTLSVerify, OptOS ''linux'', OptArch ''arm64'', OptVariant ''v8''] None,
      EvCopyManifest
        \<lparr>ListVersioned = ListVersioned nginx_list, Manifests = [nginx_arm64]\<rparr>
        ''docker://127.0.0.1:5000/library/nginx:1.25'' [DisableDestTLSVerify] None,
      StatusEnd True,
      StatusStart (Copying ''docker.io/library/nginx:1.26'' [linux_arm64]),
      EvInspectManifest ''docker://docker.io/library/nginx:1.26'' None,
      KlogWarning \<lparr>os = ''linux'', arch = ''arm64'', variant = ''v8''\<rparr>
        ''docker.io/library/nginx:1.26'',
      EvCopy ''docker://docker.io/library/nginx:1.26''
        ''docker://127.0.0.1:5000/library/nginx:1.26''
        [DisableDestTLSVerify, OptOS ''linux'', OptArch ''arm64'', OptVariant ''v8''] None,
      StatusEnd True] = None"
  by (simp add: tag_platforms_def filter_platform_def resolve_defs sample_defs world_defs
      two_tag_world_def nginx_list_126_def nginx_arm64_plain_def)

end
